theory Spec2Isabelle
  imports Complex_Main
begin

section \<open>Values, errors and data frames\<close>

text \<open>
  The two estimators of zEpid, \<open>TimeFixedGFormula\<close> (causal/gformula/TimeFixed.py) and
  \<open>GEstimationSNM\<close> (causal/snm/g_estimation.py), are embedded as HOL functions.
  Python floats are read as real numbers: rounding, overflow and infinities are outside
  the model, and the missing value \<open>np.nan\<close> is the separate cell \<open>NaN\<close>.
  Every \<open>raise\<close> of the source is an \<open>error\<close> value; the message is the one of the
  source where the source writes it.
\<close>

datatype error =
    ValueError string
  | TypeError string
  | KeyError string
  | AttributeError string
  | ZeroDivisionError string
  | LinAlgError string

text \<open>The two warnings of the source (\<open>warnings.warn\<close>): rows with missing data are
  dropped (with the number of rows kept and the number of rows given), and a treatment
  strategy gives some individuals at least two exposures.\<close>

datatype warning = MissingData nat nat | OverlappingExposures

datatype cell = NaN | Num real

text \<open>
  A pandas DataFrame: the column labels in order, and the rows in order, each with its
  index label and its record (a mapping from column label to value). Only the labels in
  \<open>columns\<close> are columns of the frame. A frame whose cells may be missing is a
  \<open>table\<close>; a frame of plain numbers (after \<open>dropna\<close>, or a design matrix) is a
  \<open>ctable\<close>.
\<close>

record 'c frame =
  columns :: "string list"
  rows :: "(int \<times> (string \<Rightarrow> 'c)) list"

type_synonym table = "cell frame"
type_synonym ctable = "real frame"

definition nrows :: "'c frame \<Rightarrow> nat" where
  "nrows t = length (rows t)"

text \<open>\<open>t[c]\<close>: the values of column \<open>c\<close>, KeyError when there is no such column.\<close>

definition getitem :: "'c frame \<Rightarrow> string \<Rightarrow> error + 'c list" where
  "getitem t c =
     (if c \<in> set (columns t) then Inr (map (\<lambda>(i, r). r c) (rows t)) else Inl (KeyError c))"

definition with_column :: "string list \<Rightarrow> string \<Rightarrow> string list" where
  "with_column cs c = (if c \<in> set cs then cs else cs @ [c])"

text \<open>\<open>t[c] = v\<close> with a scalar \<open>v\<close>: every row gets \<open>v\<close>; a new column is appended.\<close>

definition setitem_scalar :: "'c frame \<Rightarrow> string \<Rightarrow> 'c \<Rightarrow> 'c frame" where
  "setitem_scalar t c v =
     \<lparr>columns = with_column (columns t) c,
      rows = map (\<lambda>(i, r). (i, r(c := v))) (rows t)\<rparr>"

definition msg_length :: string where
  "msg_length = ''Length of values does not match length of index''"

text \<open>\<open>t[c] = vs\<close> with an array \<open>vs\<close>: pandas raises ValueError unless there is one
  value for each row.\<close>

definition setitem_array :: "'c frame \<Rightarrow> string \<Rightarrow> 'c list \<Rightarrow> error + 'c frame" where
  "setitem_array t c vs =
     (if length vs \<noteq> nrows t then Inl (ValueError msg_length)
      else Inr \<lparr>columns = with_column (columns t) c,
                rows = map (\<lambda>((i, r), v). (i, r(c := v))) (zip (rows t) vs)\<rparr>)"

text \<open>\<open>np.where(cond, 1, 0)\<close> on a boolean array.\<close>

definition np_where :: "bool list \<Rightarrow> cell list" where
  "np_where bs = map (\<lambda>b. if b then Num 1 else Num 0) bs"

primrec numbers :: "cell list \<Rightarrow> real list" where
  "numbers [] = []"
| "numbers (c # cs) = (case c of NaN \<Rightarrow> numbers cs | Num x \<Rightarrow> x # numbers cs)"

primrec all_numbers :: "cell list \<Rightarrow> real list option" where
  "all_numbers [] = Some []"
| "all_numbers (c # cs) =
     (case c of NaN \<Rightarrow> None
      | Num x \<Rightarrow> (case all_numbers cs of None \<Rightarrow> None | Some xs \<Rightarrow> Some (x # xs)))"

text \<open>\<open>np.mean\<close> of a pandas Series is \<open>Series.mean\<close>: missing values are skipped, and the
  mean of nothing is NaN.\<close>

definition np_mean :: "cell list \<Rightarrow> cell" where
  "np_mean cs =
     (let xs = numbers cs
      in if xs = [] then NaN else Num (sum_list xs / real (length xs)))"

definition msg_weights_zero :: string where
  "msg_weights_zero = ''Weights sum to zero, can't be normalized''"

definition msg_shape :: string where
  "msg_shape = ''Axis must be specified when shapes of a and weights differ.''"

text \<open>\<open>np.average(a, weights=w)\<close> on one-dimensional arrays: the shapes must agree, the
  weights must not sum to zero, and a missing value anywhere makes the result NaN.\<close>

definition np_average :: "cell list \<Rightarrow> cell list \<Rightarrow> error + cell" where
  "np_average a w =
     (if length a \<noteq> length w then Inl (TypeError msg_shape)
      else case all_numbers w of
             None \<Rightarrow> Inr NaN
           | Some ws \<Rightarrow>
               if sum_list ws = 0 then Inl (ZeroDivisionError msg_weights_zero)
               else (case all_numbers a of
                       None \<Rightarrow> Inr NaN
                     | Some xs \<Rightarrow> Inr (Num (sum_list (map (\<lambda>(x, y). x * y) (zip xs ws)) / sum_list ws))))"

section \<open>Objects and the external collaborators\<close>

text \<open>
  Tables are objects: the caller's table and the estimator's copies live in a store, at
  addresses. \<open>df.copy()\<close> allocates a new object with the same contents; an item
  assignment \<open>g[c] = v\<close> writes the object at the address of \<open>g\<close>.
\<close>

record store =
  objs :: "nat \<Rightarrow> table"
  fresh :: nat

definition df_new :: "table \<Rightarrow> store \<Rightarrow> nat \<times> store" where
  "df_new t s = (fresh s, \<lparr>objs = (objs s)(fresh s := t), fresh = Suc (fresh s)\<rparr>)"

definition df_copy :: "nat \<Rightarrow> store \<Rightarrow> nat \<times> store" where
  "df_copy a s = df_new (objs s a) s"

definition df_write :: "nat \<Rightarrow> table \<Rightarrow> store \<Rightarrow> store" where
  "df_write a t s = s\<lparr>objs := (objs s)(a := t)\<rparr>"

text \<open>
  The libraries the estimators delegate to are parameters of the model. A fitted
  regression model is its \<open>predict\<close> operation. The collaborators read the tables they
  are given and do not write them.
  \<^item> \<open>glm_fit formula data family\<close> is \<open>smf.glm(formula, data, family=family).fit()\<close>;
  \<^item> \<open>gee_fit formula groups data family weights\<close> is
    \<open>smf.gee(formula, groups, data, family=family, weights=weights).fit()\<close>;
  \<^item> \<open>py_eval expr g\<close> is \<open>eval(expr)\<close> where the name \<open>g\<close> is bound to the working
    table, giving a boolean array;
  \<^item> \<open>dmatrix formula data\<close> is \<open>patsy.dmatrix(formula, data, return_type='dataframe')\<close>;
  \<^item> \<open>propensity_score df model weights print_results\<close> is the function of that name in
    zepid.causal.ipw.utils;
  \<^item> \<open>linalg_solve a b\<close> is \<open>np.linalg.solve(a, b)\<close>.
\<close>

datatype family = Binomial_logit | Gaussian_identity

type_synonym fitted = "table \<Rightarrow> real list"
type_synonym cfitted = "ctable \<Rightarrow> real list"

record env =
  glm_fit :: "string \<Rightarrow> table \<Rightarrow> family \<Rightarrow> error + fitted"
  gee_fit :: "string \<Rightarrow> int list \<Rightarrow> table \<Rightarrow> family \<Rightarrow> cell list \<Rightarrow> error + fitted"
  py_eval :: "string \<Rightarrow> table \<Rightarrow> error + bool list"
  dmatrix :: "string \<Rightarrow> ctable \<Rightarrow> error + ctable"
  propensity_score :: "ctable \<Rightarrow> string \<Rightarrow> string option \<Rightarrow> bool \<Rightarrow> error + cfitted"
  linalg_solve :: "real list list \<Rightarrow> real list \<Rightarrow> error + real list"

section \<open>TimeFixedGFormula\<close>

text \<open>The exposure is a column label or a list of labels of disjoint indicators; the
  treatment plan is a string, a list of strings, or an object of another type.\<close>

datatype exposure = Column string | Columns "string list"

datatype treatment = Plan string | Plans "string list" | NotAPlan

text \<open>
  The instance. \<open>gf\<close> and \<open>predicted_df\<close> are addresses of tables.
  \<open>fitted_outcome_model\<close> is the instance attribute \<open>self.outcome_model\<close>, which the
  method of the same name assigns; \<open>marginal_outcome\<close> and \<open>predicted_df\<close> do not exist
  before \<open>fit\<close> has returned.
\<close>

record gformula =
  gf :: nat
  exposure :: exposure
  outcome :: string
  outcome_type :: string
  weights :: "string option"
  model_fit :: bool
  fitted_outcome_model :: "fitted option"
  marginal_outcome :: "cell option"
  predicted_df :: "nat option"

definition msg_outcome_type :: string where
  \<open>msg_outcome_type =
     ''Only binary or continuous outcomes are currently supported. Please specify "binary" or "continuous"''\<close>

definition TimeFixedGFormula_init ::
  "nat \<Rightarrow> exposure \<Rightarrow> string \<Rightarrow> string \<Rightarrow> string option \<Rightarrow> store \<Rightarrow> (error + gformula) \<times> store"
where
  "TimeFixedGFormula_init df ex out otype w s =
     (let (a, s') = df_copy df s
      in if otype = ''binary'' \<or> otype = ''continuous''
         then (Inr \<lparr>gf = a, exposure = ex, outcome = out, outcome_type = otype, weights = w,
                    model_fit = False, fitted_outcome_model = None, marginal_outcome = None,
                    predicted_df = None\<rparr>, s')
         else (Inl (ValueError msg_outcome_type), s'))"

definition msg_not_callable :: string where
  "msg_not_callable = ''object is not callable''"

text \<open>
  \<open>outcome_model(model, print_results)\<close>. The assignment \<open>self.outcome_model = m.fit()\<close>
  replaces the method by the fitted model on the instance, so a second call finds an
  object that is not callable. Printing the summary is not modelled.
\<close>

definition TimeFixedGFormula_outcome_model ::
  "env \<Rightarrow> gformula \<Rightarrow> string \<Rightarrow> bool \<Rightarrow> store \<Rightarrow> gformula \<times> error option"
where
  "TimeFixedGFormula_outcome_model env self model print_results s =
     (case fitted_outcome_model self of
        Some m \<Rightarrow> (self, Some (TypeError msg_not_callable))
      | None \<Rightarrow>
          (let linkdist = (if outcome_type self = ''binary'' then Binomial_logit
                           else Gaussian_identity);
               t = objs s (gf self);
               fit_result =
                 (case weights self of
                    None \<Rightarrow> glm_fit env (outcome self @ '' ~ '' @ model) t linkdist
                  | Some w \<Rightarrow>
                      (case getitem t w of
                         Inl e \<Rightarrow> Inl e
                       | Inr wcol \<Rightarrow>
                           gee_fit env (outcome self @ '' ~ '' @ model) (map fst (rows t)) t
                             linkdist wcol))
           in case fit_result of
                Inl e \<Rightarrow> (self, Some e)
              | Inr m \<Rightarrow> (self\<lparr>fitted_outcome_model := Some m, model_fit := True\<rparr>, None)))"

text \<open>\<open>len(treatment)\<close> and \<open>treatment[i]\<close>: a string is a sequence of its characters.\<close>

definition plan_len :: "treatment \<Rightarrow> nat" where
  "plan_len tr = (case tr of Plan p \<Rightarrow> length p | Plans ps \<Rightarrow> length ps | NotAPlan \<Rightarrow> 0)"

definition plan_items :: "treatment \<Rightarrow> string list" where
  "plan_items tr =
     (case tr of Plan p \<Rightarrow> map (\<lambda>c. [c]) p | Plans ps \<Rightarrow> ps | NotAPlan \<Rightarrow> [])"

text \<open>
  The loop \<open>for i in range(len(self.exposure)): g[self.exposure[i]] = np.where(eval(treatment[i]),1,0)\<close>,
  over the pairs of an indicator and its predicate. Each predicate is evaluated on the
  working table as the earlier assignments have left it.
\<close>

fun assign_indicators :: "env \<Rightarrow> (string \<times> string) list \<Rightarrow> table \<Rightarrow> table \<times> error option" where
  "assign_indicators env [] g = (g, None)"
| "assign_indicators env ((e, p) # rest) g =
     (case py_eval env p g of
        Inl err \<Rightarrow> (g, Some err)
      | Inr bs \<Rightarrow>
          (case setitem_array g e (np_where bs) of
             Inl err \<Rightarrow> (g, Some err)
           | Inr g' \<Rightarrow> assign_indicators env rest g'))"

definition cell_value :: "cell \<Rightarrow> real" where
  "cell_value c = (case c of NaN \<Rightarrow> 0 | Num x \<Rightarrow> x)"

text \<open>\<open>np.sum(np.where(g[self.exposure].sum(axis=1) > 1, 1, 0))\<close>: the number of rows whose
  indicators sum to more than 1 (a row sum skips missing values).\<close>

definition overlapping_rows :: "string list \<Rightarrow> table \<Rightarrow> nat" where
  "overlapping_rows es g =
     length (filter (\<lambda>(i, r). sum_list (map (\<lambda>c. cell_value (r c)) es) > 1) (rows g))"

definition msg_multivariate :: string where
  "msg_multivariate =
     ''A multivariate exposure has been specified. A custom treatment must be specified by the user''"

definition msg_size :: string where
  "msg_size =
     ''The list of custom treatment conditions must be the same size as the number of treatments''"

definition msg_binary :: string where
  "msg_binary = ''A binary exposure is specified. Treatment plan should be a string object''"

definition msg_eval :: string where
  "msg_eval = ''eval() arg 1 must be a string, bytes or code object''"

text \<open>
  Lines 137 to 160 of \<open>fit\<close>: the treatment plan is written into the working table
  \<open>g\<close>. The result is the table as the assignments have left it, the warnings issued
  and the error raised, if any.
\<close>

definition set_treatment ::
  "env \<Rightarrow> exposure \<Rightarrow> treatment \<Rightarrow> table \<Rightarrow> table \<times> warning list \<times> error option"
where
  "set_treatment env ex tr g =
     (case ex of
        Columns es \<Rightarrow>
          if tr = Plan ''all'' \<or> tr = Plan ''none''
          then (g, [], Some (ValueError msg_multivariate))
          else if length es \<noteq> plan_len tr then (g, [], Some (ValueError msg_size))
          else (case assign_indicators env (zip es (plan_items tr)) g of
                  (g', Some e) \<Rightarrow> (g', [], Some e)
                | (g', None) \<Rightarrow>
                    (g', if overlapping_rows es g' > 1 then [OverlappingExposures] else [], None))
      | Column a \<Rightarrow>
          (case tr of
             Plans ps \<Rightarrow> (g, [], Some (ValueError msg_binary))
           | NotAPlan \<Rightarrow> (g, [], Some (TypeError msg_eval))
           | Plan p \<Rightarrow>
               if p = ''all'' then (setitem_scalar g a (Num 1), [], None)
               else if p = ''none'' then (setitem_scalar g a (Num 0), [], None)
               else (case py_eval env p g of
                       Inl e \<Rightarrow> (g, [], Some e)
                     | Inr bs \<Rightarrow>
                         (case setitem_array g a (np_where bs) of
                            Inl e \<Rightarrow> (g, [], Some e)
                          | Inr g' \<Rightarrow> (g', [], None)))))"

text \<open>
  Lines 163 to 168 of \<open>fit\<close>: the outcome column of the working table is blanked, then
  filled with the predictions of the fitted model, and the marginal outcome is their
  mean, or their average weighted by the weights column of the stored table \<open>gf\<close>.
\<close>

definition predict_outcome ::
  "fitted \<Rightarrow> string \<Rightarrow> string option \<Rightarrow> table \<Rightarrow> table \<Rightarrow> table \<times> (error + cell)"
where
  "predict_outcome om out w gf_table g =
     (let g1 = setitem_scalar g out NaN
      in case setitem_array g1 out (map Num (om g1)) of
           Inl e \<Rightarrow> (g1, Inl e)
         | Inr g2 \<Rightarrow>
             (case getitem g2 out of
                Inl e \<Rightarrow> (g2, Inl e)
              | Inr ys \<Rightarrow>
                  (case w of
                     None \<Rightarrow> (g2, Inr (np_mean ys))
                   | Some wc \<Rightarrow>
                       (case getitem gf_table wc of
                          Inl e \<Rightarrow> (g2, Inl e)
                        | Inr ws \<Rightarrow> (g2, np_average ys ws)))))"

definition msg_no_model :: string where
  "msg_no_model =
     ''Before the g-formula can be calculated, the outcome model must be specified''"

definition msg_plan_type :: string where
  "msg_plan_type = ''Specified treatment must be a string object or a list of string objects''"

definition msg_no_predict :: string where
  "msg_no_predict = ''object has no attribute predict''"

record fit_result =
  self_after :: gformula
  raised :: "error option"
  warned :: "warning list"
  heap :: store

text \<open>
  \<open>fit(treatment)\<close>. The working table \<open>g\<close> is a copy of the stored table; all item
  assignments of \<open>fit\<close> write \<open>g\<close>. The attributes \<open>marginal_outcome\<close> and
  \<open>predicted_df\<close> are assigned only when nothing has been raised.
\<close>

definition TimeFixedGFormula_fit :: "env \<Rightarrow> gformula \<Rightarrow> treatment \<Rightarrow> store \<Rightarrow> fit_result" where
  "TimeFixedGFormula_fit env self tr s =
     (if \<not> model_fit self
      then \<lparr>self_after = self, raised = Some (ValueError msg_no_model), warned = [], heap = s\<rparr>
      else if tr = NotAPlan
      then \<lparr>self_after = self, raised = Some (ValueError msg_plan_type), warned = [], heap = s\<rparr>
      else
        (let (g, s1) = df_copy (gf self) s;
             (t1, ws, e1) = set_treatment env (exposure self) tr (objs s1 g);
             s2 = df_write g t1 s1
         in case e1 of
              Some e \<Rightarrow> \<lparr>self_after = self, raised = Some e, warned = ws, heap = s2\<rparr>
            | None \<Rightarrow>
                (case fitted_outcome_model self of
                   None \<Rightarrow>
                     \<lparr>self_after = self, raised = Some (AttributeError msg_no_predict),
                      warned = ws, heap = df_write g (setitem_scalar t1 (outcome self) NaN) s2\<rparr>
                 | Some om \<Rightarrow>
                     (let (t2, res) = predict_outcome om (outcome self) (weights self)
                                        (objs s2 (gf self)) t1;
                          s3 = df_write g t2 s2
                      in case res of
                           Inl e \<Rightarrow> \<lparr>self_after = self, raised = Some e, warned = ws, heap = s3\<rparr>
                         | Inr m \<Rightarrow>
                             \<lparr>self_after = self\<lparr>marginal_outcome := Some m, predicted_df := Some g\<rparr>,
                              raised = None, warned = ws, heap = s3\<rparr>))))"

section \<open>GEstimationSNM\<close>

text \<open>\<open>df.dropna()\<close>: the rows without a missing value in any column; what is left is a
  frame of numbers.\<close>

definition complete_row :: "string list \<Rightarrow> (string \<Rightarrow> cell) \<Rightarrow> bool" where
  "complete_row cs r = list_all (\<lambda>c. r c \<noteq> NaN) cs"

definition dropna :: "table \<Rightarrow> ctable" where
  "dropna t =
     \<lparr>columns = columns t,
      rows = map (\<lambda>(i, r). (i, \<lambda>c. cell_value (r c)))
               (filter (\<lambda>(i, r). complete_row (columns t) r) (rows t))\<rparr>"

definition msg_level_0 :: string where
  "msg_level_0 = ''cannot insert level_0, already exists''"

text \<open>\<open>df.reset_index()\<close>: the old index becomes the first column, named \<open>index\<close>, or
  \<open>level_0\<close> when there is a column \<open>index\<close> already; the new index counts from 0.
  The index of the table is taken to be unnamed and to hold integers, as the default
  index of pandas does.\<close>

definition reset_index :: "ctable \<Rightarrow> error + ctable" where
  "reset_index t =
     (let name = (if ''index'' \<in> set (columns t) then ''level_0'' else ''index'')
      in if name \<in> set (columns t) then Inl (ValueError msg_level_0)
         else Inr \<lparr>columns = name # columns t,
                   rows = map (\<lambda>(k, (i, r)). (int k, r(name := real_of_int i)))
                            (enumerate 0 (rows t))\<rparr>)"

text \<open>\<open>df.drop(columns=[c])\<close> and \<open>df.rename(columns={old: new})\<close>; renaming a label that
  is not there changes nothing.\<close>

definition drop_column :: "'c frame \<Rightarrow> string \<Rightarrow> error + 'c frame" where
  "drop_column t c =
     (if c \<in> set (columns t) then Inr \<lparr>columns = filter (\<lambda>x. x \<noteq> c) (columns t), rows = rows t\<rparr>
      else Inl (KeyError c))"

definition rename_column :: "'c frame \<Rightarrow> string \<Rightarrow> string \<Rightarrow> 'c frame" where
  "rename_column t old new =
     (if old \<in> set (columns t)
      then \<lparr>columns = map (\<lambda>x. if x = old then new else x) (columns t),
            rows = map (\<lambda>(i, r). (i, r(new := r old))) (rows t)\<rparr>
      else t)"

text \<open>
  The instance. \<open>snm_df\<close> is \<open>self.df\<close>, \<open>snm_treatment\<close> is \<open>self.treatment\<close>,
  \<open>snm_outcome\<close> is \<open>self.outcome\<close>, \<open>snm_weights\<close> is \<open>self._weights\<close>,
  \<open>snm_treatment_model\<close> is \<open>self._treatment_model\<close>, \<open>snm_model\<close> is \<open>self._snm_\<close> and
  \<open>snm_print_results\<close> is \<open>self._print_results\<close>. The table \<open>self.df\<close> is never written
  after the constructor, so the instance holds its contents.
\<close>

record snm =
  snm_df :: ctable
  snm_treatment :: string
  snm_outcome :: string
  psi :: "real list option"
  psi_labels :: "string list option"
  snm_weights :: "string option"
  snm_treatment_model :: "string option"
  snm_model :: "string option"
  snm_print_results :: bool

definition msg_binary_only :: string where
  "msg_binary_only = ''GEstimationSNM only supports binary exposures currently''"

text \<open>\<open>self.df[exposure].value_counts().index.isin([0, 1]).all()\<close>: every distinct value
  of the column is 0 or 1.\<close>

definition values_in_01 :: "real list \<Rightarrow> bool" where
  "values_in_01 col = list_all (\<lambda>v. v \<in> set [0, 1]) (remdups col)"

definition GEstimationSNM_init ::
  "nat \<Rightarrow> string \<Rightarrow> string \<Rightarrow> string option \<Rightarrow> store \<Rightarrow> (error + snm) \<times> warning list \<times> store"
where
  "GEstimationSNM_init df ex out w s =
     (let t = objs s df;
          ws = (if nrows (dropna t) \<noteq> nrows t
                then [MissingData (nrows (dropna t)) (nrows t)] else []);
          (a, s') = df_copy df s
      in case reset_index (dropna (objs s' a)) of
           Inl e \<Rightarrow> (Inl e, ws, s')
         | Inr d \<Rightarrow>
             (case getitem d ex of
                Inl e \<Rightarrow> (Inl e, ws, s')
              | Inr col \<Rightarrow>
                  if \<not> values_in_01 col then (Inl (ValueError msg_binary_only), ws, s')
                  else (Inr \<lparr>snm_df = d, snm_treatment = ex, snm_outcome = out, psi = None,
                             psi_labels = None, snm_weights = w, snm_treatment_model = None,
                             snm_model = None, snm_print_results = True\<rparr>, ws, s')))"

definition treatment_model :: "snm \<Rightarrow> string \<Rightarrow> bool \<Rightarrow> snm" where
  "treatment_model self model print_results =
     self\<lparr>snm_treatment_model := Some model, snm_print_results := print_results\<rparr>"

definition structural_nested_model :: "snm \<Rightarrow> string \<Rightarrow> snm" where
  "structural_nested_model self model = self\<lparr>snm_model := Some model\<rparr>"

text \<open>\<open>_grid_search_\<close> raises whenever it is called.\<close>

definition grid_search :: "snm \<Rightarrow> error + unit" where
  "grid_search self = Inl (ValueError ''Not implemented yet'')"

text \<open>
  The right operand of \<open>diff * weights\<close>. The argument \<open>weights\<close> of
  \<open>_closed_form_solver_\<close> is \<open>self._weights\<close>, the label of the weights column that
  \<open>propensity_score\<close> takes; the product of a Series of floats and a str raises
  TypeError.
\<close>

datatype operand = Scalar real | Label string

definition quoted :: "string \<Rightarrow> string" where
  "quoted x = [CHR 0x27] @ x @ [CHR 0x27]"

definition msg_mul_str :: string where
  "msg_mul_str = ''can't multiply sequence by non-int of type '' @ quoted ''float''"

definition series_mul :: "real list \<Rightarrow> operand \<Rightarrow> error + real list" where
  "series_mul xs v =
     (case v of
        Scalar c \<Rightarrow> Inr (map (\<lambda>x. x * c) xs)
      | Label l \<Rightarrow> Inl (TypeError msg_mul_str))"

text \<open>
  \<open>m.mul(d, axis=0)\<close> scales row \<open>i\<close> of the frame by \<open>d[i]\<close>; \<open>np.dot(a.transpose(), b)\<close>
  has, for the columns \<open>ca\<close> of \<open>a\<close> and \<open>cb\<close> of \<open>b\<close>, the entry
  \<open>\<Sum>i. a[i][ca] * b[i][cb]\<close>; \<open>m.sum()\<close> is the sum of each column. The design matrices
  and the Series \<open>d\<close> carry the index of \<open>df\<close>, so rows are paired by position.
\<close>

definition mul_axis0 :: "ctable \<Rightarrow> real list \<Rightarrow> ctable" where
  "mul_axis0 m d =
     \<lparr>columns = columns m, rows = map (\<lambda>((i, r), x). (i, \<lambda>c. r c * x)) (zip (rows m) d)\<rparr>"

definition np_dot_T :: "ctable \<Rightarrow> ctable \<Rightarrow> real list list" where
  "np_dot_T a b =
     map (\<lambda>ca. map (\<lambda>cb. sum_list (map (\<lambda>((i, r), (j, r')). r ca * r' cb) (zip (rows a) (rows b))))
                  (columns b))
         (columns a)"

definition frame_sum :: "ctable \<Rightarrow> real list" where
  "frame_sum m = map (\<lambda>c. sum_list (map (\<lambda>(i, r). r c) (rows m))) (columns m)"

definition closed_form_solver ::
  "env \<Rightarrow> string \<Rightarrow> string \<Rightarrow> ctable \<Rightarrow> ctable \<Rightarrow> ctable \<Rightarrow> string option \<Rightarrow> bool
     \<Rightarrow> error + real list"
where
  "closed_form_solver env treat model df snm_matrix y_matrix wts print_results =
     (case propensity_score env df model wts print_results of
        Inl e \<Rightarrow> Inl e
      | Inr fm \<Rightarrow>
          (let pred_treat = fm df
           in case getitem df treat of
                Inl e \<Rightarrow> Inl e
              | Inr a \<Rightarrow>
                  (let diff = map (\<lambda>(x, p). x - p) (zip a pred_treat)
                   in case (case wts of
                              None \<Rightarrow> Inr diff
                            | Some w \<Rightarrow> series_mul diff (Label w)) of
                        Inl e \<Rightarrow> Inl e
                      | Inr diff' \<Rightarrow>
                          (let lhm = np_dot_T (mul_axis0 snm_matrix diff') snm_matrix;
                               rha = frame_sum (mul_axis0 y_matrix diff')
                           in linalg_solve env lhm rha))))"

definition msg_none_plus_str :: string where
  "msg_none_plus_str =
     ''unsupported operand type(s) for +: '' @ quoted ''NoneType'' @ '' and '' @ quoted ''str''"

definition msg_str_plus_none :: string where
  \<open>msg_str_plus_none = ''can only concatenate str (not "NoneType") to str''\<close>

definition msg_solver :: string where
  "msg_solver =
     ''`solver` must be specified as either '' @ quoted ''closed'' @ '' or as '' @ quoted ''search''"

text \<open>
  \<open>fit(solver, starting_value, alpha_value)\<close>. The result is the instance as the call
  leaves it and the error raised, if any: \<open>self.psi_labels\<close> is assigned as soon as the
  first design matrix is built, \<open>self.psi\<close> only when the solver has returned. In the
  closed form, \<open>self._snm_ + ' - 1'\<close> and \<open>self.treatment + ' ~ ' + self._treatment_model\<close>
  are concatenations of Python values: with \<open>None\<close> for a formula they raise TypeError.
\<close>

definition GEstimationSNM_fit ::
  "env \<Rightarrow> snm \<Rightarrow> string \<Rightarrow> real list option \<Rightarrow> real \<Rightarrow> snm \<times> error option"
where
  "GEstimationSNM_fit env self solver starting_value alpha_value =
     (if solver = ''closed''
      then (case snm_model self of
              None \<Rightarrow> (self, Some (TypeError msg_none_plus_str))
            | Some f \<Rightarrow>
                (case dmatrix env (f @ '' - 1'') (snm_df self) of
                   Inl e \<Rightarrow> (self, Some e)
                 | Inr snm \<Rightarrow>
                     (let self1 = self\<lparr>psi_labels := Some (columns snm)\<rparr>
                      in case drop_column (snm_df self) (snm_treatment self) of
                           Inl e \<Rightarrow> (self1, Some e)
                         | Inr yf0 \<Rightarrow>
                             (let yf = rename_column yf0 (snm_outcome self) (snm_treatment self)
                              in case dmatrix env (f @ '' - 1'') yf of
                                   Inl e \<Rightarrow> (self1, Some e)
                                 | Inr y_vals \<Rightarrow>
                                     (case snm_treatment_model self of
                                        None \<Rightarrow> (self1, Some (TypeError msg_str_plus_none))
                                      | Some tm \<Rightarrow>
                                          (case closed_form_solver env (snm_treatment self)
                                                  (snm_treatment self @ '' ~ '' @ tm) (snm_df self)
                                                  snm y_vals (snm_weights self)
                                                  (snm_print_results self) of
                                             Inl e \<Rightarrow> (self1, Some e)
                                           | Inr p \<Rightarrow> (self1\<lparr>psi := Some p\<rparr>, None)))))))
      else if solver = ''search''
      then (case grid_search self of Inl e \<Rightarrow> (self, Some e) | Inr u \<Rightarrow> (self, None))
      else (self, Some (ValueError msg_solver)))"

section \<open>Sequences of calls\<close>

text \<open>
  A caller constructs a \<open>TimeFixedGFormula\<close> from a table and then calls its methods
  in any order, going on after an exception. The methods of \<open>GEstimationSNM\<close> take no
  store: they assign no item of any table, and only its constructor reads the caller's
  table.
\<close>

datatype gformula_call = Call_outcome_model string bool | Call_fit treatment

fun run_gformula :: "env \<Rightarrow> gformula_call list \<Rightarrow> gformula \<Rightarrow> store \<Rightarrow> gformula \<times> store" where
  "run_gformula env [] self s = (self, s)"
| "run_gformula env (Call_outcome_model model print_results # calls) self s =
     run_gformula env calls (fst (TimeFixedGFormula_outcome_model env self model print_results s)) s"
| "run_gformula env (Call_fit tr # calls) self s =
     run_gformula env calls (self_after (TimeFixedGFormula_fit env self tr s))
       (heap (TimeFixedGFormula_fit env self tr s))"

section \<open>The specification's formulas\<close>

text \<open>
  The treatment plan as the specification words it: 1 in every row for \<open>all\<close>, 0 in
  every row for \<open>none\<close>, otherwise the predicate evaluated per row and cast to 0 and 1.
\<close>

definition plan_indicator :: "env \<Rightarrow> string \<Rightarrow> table \<Rightarrow> error + cell list" where
  "plan_indicator env p g =
     (if p = ''all'' then Inr (replicate (nrows g) (Num 1))
      else if p = ''none'' then Inr (replicate (nrows g) (Num 0))
      else (case py_eval env p g of
              Inl e \<Rightarrow> Inl e
            | Inr bs \<Rightarrow> Inr (map (\<lambda>b. if b then Num 1 else Num 0) bs)))"

text \<open>The unweighted arithmetic mean and the weighted average of the specification.\<close>

definition arithmetic_mean :: "real list \<Rightarrow> real" where
  "arithmetic_mean xs = sum_list xs / real (length xs)"

definition weighted_average :: "real list \<Rightarrow> real list \<Rightarrow> real" where
  "weighted_average xs ws = sum_list (map (\<lambda>(x, w). x * w) (zip xs ws)) / sum_list ws"

text \<open>
  The closed form as the specification words it, on matrices given by their entries:
  \<open>lhm\<close> is the product of the transposed design matrix, the diagonal matrix of the
  residuals and the design matrix; entry \<open>j\<close> of \<open>rha\<close> is the sum over the rows \<open>i\<close> of
  \<open>diff[i] * y_matrix[i][j]\<close>; \<open>mat_vec a x\<close> is the product of a matrix, as the list of
  its rows, and a vector.
\<close>

record matrix =
  nrow :: nat
  ncol :: nat
  entry :: "nat \<Rightarrow> nat \<Rightarrow> real"

definition frame_matrix :: "ctable \<Rightarrow> matrix" where
  "frame_matrix t =
     \<lparr>nrow = nrows t, ncol = length (columns t),
      entry = (\<lambda>i j. snd (rows t ! i) (columns t ! j))\<rparr>"

definition mat_transpose :: "matrix \<Rightarrow> matrix" where
  "mat_transpose a = \<lparr>nrow = ncol a, ncol = nrow a, entry = (\<lambda>i j. entry a j i)\<rparr>"

definition mat_diag :: "real list \<Rightarrow> matrix" where
  "mat_diag d =
     \<lparr>nrow = length d, ncol = length d, entry = (\<lambda>i j. if i = j then d ! i else 0)\<rparr>"

definition mat_mul :: "matrix \<Rightarrow> matrix \<Rightarrow> matrix" where
  "mat_mul a b =
     \<lparr>nrow = nrow a, ncol = ncol b,
      entry = (\<lambda>i j. sum_list (map (\<lambda>k. entry a i k * entry b k j) [0..<ncol a]))\<rparr>"

definition mat_rows :: "matrix \<Rightarrow> real list list" where
  "mat_rows a = map (\<lambda>i. map (\<lambda>j. entry a i j) [0..<ncol a]) [0..<nrow a]"

definition spec_lhm :: "ctable \<Rightarrow> real list \<Rightarrow> real list list" where
  "spec_lhm snm_matrix diff =
     mat_rows (mat_mul (mat_mul (mat_transpose (frame_matrix snm_matrix)) (mat_diag diff))
                       (frame_matrix snm_matrix))"

definition spec_rha :: "ctable \<Rightarrow> real list \<Rightarrow> real list" where
  "spec_rha y_matrix diff =
     map (\<lambda>j. sum_list (map (\<lambda>i. diff ! i * entry (frame_matrix y_matrix) i j)
                           [0..<nrow (frame_matrix y_matrix)]))
         [0..<ncol (frame_matrix y_matrix)]"

definition mat_vec :: "real list list \<Rightarrow> real list \<Rightarrow> real list" where
  "mat_vec a x = map (\<lambda>row. sum_list (map (\<lambda>(u, v). u * v) (zip row x))) a"

section \<open>An example data set\<close>

text \<open>
  Two observations of an exposure \<open>A\<close>, an outcome \<open>Y\<close>, a covariate \<open>L\<close> and a weight
  \<open>w\<close>, and collaborators small enough to evaluate: a fitted model that predicts
  \<open>(1 + A) / 4\<close>, three predicates, the design matrix of the formula \<open>A - 1\<close>, a constant
  propensity score, and a solver of systems with one unknown.
\<close>

definition example_table :: table where
  "example_table =
     \<lparr>columns = [''A'', ''Y'', ''L'', ''w''],
      rows = [(0, (\<lambda>c. NaN)(''A'' := Num 1, ''Y'' := Num 1, ''L'' := Num 0, ''w'' := Num 1)),
              (1, (\<lambda>c. NaN)(''A'' := Num 0, ''Y'' := Num 0, ''L'' := Num 1, ''w'' := Num 3))]\<rparr>"

definition example_model :: fitted where
  "example_model t = map (\<lambda>(i, r). (1 + cell_value (r ''A'')) / 4) (rows t)"

fun example_solve :: "real list list \<Rightarrow> real list \<Rightarrow> error + real list" where
  "example_solve [[a]] [b] = (if a = 0 then Inl (LinAlgError ''Singular matrix'') else Inr [b / a])"
| "example_solve a b = Inl (LinAlgError ''Last 2 dimensions of the array must be square'')"

definition example_env :: env where
  "example_env =
     \<lparr>glm_fit = (\<lambda>formula data fam. Inr example_model),
      gee_fit = (\<lambda>formula groups data fam wts. Inr example_model),
      py_eval = (\<lambda>expr g.
         if expr = ''g.L == 1'' then Inr (map (\<lambda>(i, r). r ''L'' = Num 1) (rows g))
         else if expr = ''g.Y == 1'' then Inr (map (\<lambda>(i, r). r ''Y'' = Num 1) (rows g))
         else if expr = ''g.L == 0'' then Inr (map (\<lambda>(i, r). r ''L'' = Num 0) (rows g))
         else Inl (TypeError ''unsupported expression'')),
      dmatrix = (\<lambda>formula data.
         if formula = ''A - 1''
         then Inr \<lparr>columns = [''A''],
                   rows = map (\<lambda>(i, r). (i, (\<lambda>c. 0)(''A'' := r ''A''))) (rows data)\<rparr>
         else Inl (ValueError ''unsupported formula'')),
      propensity_score = (\<lambda>df model wts print_results. Inr (\<lambda>t. map (\<lambda>r. 1 / 4) (rows t))),
      linalg_solve = example_solve\<rparr>"

definition empty_table :: table where
  "empty_table = \<lparr>columns = [], rows = []\<rparr>"

definition example_store :: store where
  "example_store = \<lparr>objs = (\<lambda>a. empty_table)(0 := example_table), fresh = 1\<rparr>"

definition example_gformula :: "exposure \<Rightarrow> string option \<Rightarrow> gformula" where
  "example_gformula ex w =
     \<lparr>gf = 0, exposure = ex, outcome = ''Y'', outcome_type = ''binary'', weights = w,
      model_fit = True, fitted_outcome_model = Some example_model, marginal_outcome = None,
      predicted_df = None\<rparr>"

definition example_frame :: ctable where
  "example_frame =
     (case reset_index (dropna example_table) of Inl e \<Rightarrow> \<lparr>columns = [], rows = []\<rparr> | Inr d \<Rightarrow> d)"

definition example_snm :: "string option \<Rightarrow> snm" where
  "example_snm w =
     \<lparr>snm_df = example_frame, snm_treatment = ''A'', snm_outcome = ''Y'', psi = None,
      psi_labels = None, snm_weights = w, snm_treatment_model = None, snm_model = None,
      snm_print_results = True\<rparr>"

text \<open>A table whose exposure is 1 in every row.\<close>

definition treated_table :: table where
  "treated_table =
     \<lparr>columns = [''A'', ''Y''],
      rows = [(0, (\<lambda>c. NaN)(''A'' := Num 1, ''Y'' := Num 1)),
              (1, (\<lambda>c. NaN)(''A'' := Num 1, ''Y'' := Num 0))]\<rparr>"

definition treated_store :: store where
  "treated_store = \<lparr>objs = (\<lambda>a. empty_table)(0 := treated_table), fresh = 1\<rparr>"

section \<open>Properties\<close>

lemma nrows_setitem_scalar [simp]: "nrows (setitem_scalar t c v) = nrows t"
  by (simp add: nrows_def setitem_scalar_def)

lemma nrows_setitem_array: "setitem_array t c vs = Inr t' \<Longrightarrow> nrows t' = nrows t"
  by (auto simp: nrows_def setitem_array_def split: if_splits)

lemma mem_with_column [simp]: "c \<in> set (with_column cs c)"
  by (simp add: with_column_def)

lemma mem_with_column_other: "c' \<noteq> c \<Longrightarrow> c' \<in> set (with_column cs c) \<longleftrightarrow> c' \<in> set cs"
  by (simp add: with_column_def)

lemma getitem_setitem_scalar_same:
  "getitem (setitem_scalar t c v) c = Inr (replicate (nrows t) v)"
  by (simp add: getitem_def setitem_scalar_def nrows_def map_replicate_const [symmetric] case_prod_unfold comp_def)

lemma getitem_setitem_scalar_other:
  "c' \<noteq> c \<Longrightarrow> getitem (setitem_scalar t c v) c' = getitem t c'"
  by (simp add: getitem_def setitem_scalar_def mem_with_column_other case_prod_unfold comp_def)

lemma map_snd_zip_update:
  "length rs = length vs \<Longrightarrow>
   map ((\<lambda>(i, r). r c) \<circ> (\<lambda>((i, r), v). (i, r(c := v)))) (zip rs vs) = vs"
  by (induction rs vs rule: list_induct2) auto

lemma map_other_zip_update:
  "length rs = length vs \<Longrightarrow> c' \<noteq> c \<Longrightarrow>
   map ((\<lambda>(i, r). r c') \<circ> (\<lambda>((i, r), v). (i, r(c := v)))) (zip rs vs) = map (\<lambda>(i, r). r c') rs"
  by (induction rs vs rule: list_induct2) auto

lemma getitem_setitem_array_same:
  "setitem_array t c vs = Inr t' \<Longrightarrow> getitem t' c = Inr vs"
  by (auto simp: getitem_def setitem_array_def nrows_def map_snd_zip_update split: if_splits)

lemma getitem_setitem_array_other:
  "setitem_array t c vs = Inr t' \<Longrightarrow> c' \<noteq> c \<Longrightarrow> getitem t' c' = getitem t c'"
  by (auto simp: getitem_def setitem_array_def nrows_def map_other_zip_update mem_with_column_other split: if_splits)

lemma numbers_map_Num [simp]: "numbers (map Num xs) = xs"
  by (induction xs) auto

lemma all_numbers_map_Num [simp]: "all_numbers (map Num xs) = Some xs"
  by (induction xs) auto



lemma df_copy_simps [simp]:
  "fst (df_copy a s) = fresh s"
  "objs (snd (df_copy a s)) = (objs s)(fresh s := objs s a)"
  "fresh (snd (df_copy a s)) = Suc (fresh s)"
  by (simp_all add: df_copy_def df_new_def)

lemma df_write_simps [simp]:
  "objs (df_write a t s) = (objs s)(a := t)"
  "fresh (df_write a t s) = fresh s"
  by (simp_all add: df_write_def)

lemma fit_unfold:
  assumes "model_fit self" "tr \<noteq> NotAPlan"
  shows "TimeFixedGFormula_fit env self tr s =
     (let g = fresh s; s1 = snd (df_copy (gf self) s);
          r = set_treatment env (exposure self) tr (objs s (gf self));
          t1 = fst r; ws = fst (snd r); e1 = snd (snd r);
          s2 = df_write g t1 s1
      in case e1 of
           Some e \<Rightarrow> \<lparr>self_after = self, raised = Some e, warned = ws, heap = s2\<rparr>
         | None \<Rightarrow>
             (case fitted_outcome_model self of
                None \<Rightarrow>
                  \<lparr>self_after = self, raised = Some (AttributeError msg_no_predict),
                   warned = ws, heap = df_write g (setitem_scalar t1 (outcome self) NaN) s2\<rparr>
              | Some om \<Rightarrow>
                  (let p = predict_outcome om (outcome self) (weights self) (objs s2 (gf self)) t1;
                       s3 = df_write g (fst p) s2
                   in case snd p of
                        Inl e \<Rightarrow> \<lparr>self_after = self, raised = Some e, warned = ws, heap = s3\<rparr>
                      | Inr m \<Rightarrow>
                          \<lparr>self_after = self\<lparr>marginal_outcome := Some m, predicted_df := Some g\<rparr>,
                           raised = None, warned = ws, heap = s3\<rparr>)))"
  using assms
  by (simp add: TimeFixedGFormula_fit_def Let_def case_prod_unfold
      split: option.split sum.split)

lemma set_treatment_multivariate_sentinel:
  "tr = Plan ''all'' \<or> tr = Plan ''none'' \<Longrightarrow>
   set_treatment env (Columns es) tr g = (g, [], Some (ValueError msg_multivariate))"
  by (auto simp: set_treatment_def)

lemma set_treatment_multivariate_size:
  "length ps \<noteq> length es \<Longrightarrow>
   set_treatment env (Columns es) (Plans ps) g = (g, [], Some (ValueError msg_size))"
  by (auto simp: set_treatment_def plan_len_def)

text \<open>
  Claim C7. With a list of exposure indicators, \<open>fit\<close> with the plan \<open>all\<close> or
  \<open>none\<close>, and \<open>fit\<close> with a list of predicates whose length differs from the length
  of the exposure list, raise ValueError, the configuration error of the source: the
  dedicated message when the outcome model has been fitted, and the message of the
  missing outcome model otherwise.
\<close>

theorem multivariate_plan_rejected:
  assumes "exposure self = Columns es"
  shows "raised (TimeFixedGFormula_fit env self (Plan ''all'') s)
           = Some (ValueError (if model_fit self then msg_multivariate else msg_no_model))
       \<and> raised (TimeFixedGFormula_fit env self (Plan ''none'') s)
           = Some (ValueError (if model_fit self then msg_multivariate else msg_no_model))
       \<and> (length ps \<noteq> length es \<longrightarrow>
            raised (TimeFixedGFormula_fit env self (Plans ps) s)
              = Some (ValueError (if model_fit self then msg_size else msg_no_model)))"
proof (cases "model_fit self")
  case False
  then show ?thesis by (simp add: TimeFixedGFormula_fit_def)
next
  case True
  then show ?thesis
    using assms
    by (simp add: fit_unfold Let_def set_treatment_multivariate_sentinel
        set_treatment_multivariate_size)
qed

lemma set_treatment_binary:
  assumes "set_treatment env (Column a) (Plan p) g = (g', ws, None)"
  shows "getitem g' a = plan_indicator env p g"
  using assms
  by (auto simp: set_treatment_def plan_indicator_def getitem_setitem_scalar_same np_where_def
      dest: getitem_setitem_array_same split: if_splits sum.splits)



lemma np_mean_numbers:
  "np_mean (map Num xs) = (if xs = [] then NaN else Num (arithmetic_mean xs))"
  by (simp add: np_mean_def arithmetic_mean_def)

lemma np_average_numbers:
  assumes "np_average (map Num xs) wcol = Inr m"
  shows "m = (case all_numbers wcol of None \<Rightarrow> NaN | Some ws \<Rightarrow> Num (weighted_average xs ws))"
  using assms
  by (auto simp: np_average_def weighted_average_def split: if_splits option.splits)

lemma predict_outcome_ok:
  assumes "predict_outcome om out w gft g = (t2, Inr m)"
  shows "setitem_array (setitem_scalar g out NaN) out (map Num (om (setitem_scalar g out NaN))) = Inr t2"
    and "w = None \<Longrightarrow> m = np_mean (map Num (om (setitem_scalar g out NaN)))"
    and "w = Some wc \<Longrightarrow> \<exists>wcol. getitem gft wc = Inr wcol
            \<and> np_average (map Num (om (setitem_scalar g out NaN))) wcol = Inr m"
  using assms
  by (auto simp: predict_outcome_def Let_def dest: getitem_setitem_array_same
      split: sum.splits option.splits)

lemma predict_outcome_keeps:
  assumes "predict_outcome om out w gft g = (t2, Inr m)" and "a \<noteq> out"
  shows "getitem t2 a = getitem g a"
  using predict_outcome_ok(1) [OF assms(1)] assms(2)
  by (simp add: getitem_setitem_array_other getitem_setitem_scalar_other)

lemma fit_returns:
  assumes "raised (TimeFixedGFormula_fit env self tr s) = None"
  shows "\<exists>om t1 ws t2 m.
      fitted_outcome_model self = Some om
    \<and> set_treatment env (exposure self) tr (objs s (gf self)) = (t1, ws, None)
    \<and> predict_outcome om (outcome self) (weights self)
         (if gf self = fresh s then t1 else objs s (gf self)) t1 = (t2, Inr m)
    \<and> self_after (TimeFixedGFormula_fit env self tr s)
         = self\<lparr>marginal_outcome := Some m, predicted_df := Some (fresh s)\<rparr>
    \<and> warned (TimeFixedGFormula_fit env self tr s) = ws
    \<and> objs (heap (TimeFixedGFormula_fit env self tr s)) = (objs s)(fresh s := t2)"
proof -
  have mf: "model_fit self" and tr: "tr \<noteq> NotAPlan"
    using assms by (auto simp: TimeFixedGFormula_fit_def split: if_splits)
  obtain t1 ws e1 where st: "set_treatment env (exposure self) tr (objs s (gf self)) = (t1, ws, e1)"
    by (cases "set_treatment env (exposure self) tr (objs s (gf self))") auto
  show ?thesis
    using assms st
    by (cases "predict_outcome (the (fitted_outcome_model self)) (outcome self) (weights self)
         (if gf self = fresh s then t1 else objs s (gf self)) t1")
       (auto simp: fit_unfold [OF mf tr] Let_def split: option.splits sum.splits if_splits)
qed

lemma set_treatment_all:
  "set_treatment env (Column a) (Plan ''all'') g = (setitem_scalar g a (Num 1), [], None)"
  by (simp add: set_treatment_def)

lemma set_treatment_none:
  "set_treatment env (Column a) (Plan ''none'') g = (setitem_scalar g a (Num 0), [], None)"
  by (simp add: set_treatment_def)

lemma set_treatment_custom:
  assumes "p \<noteq> ''all''" "p \<noteq> ''none''" "py_eval env p g = Inr bs" "length bs = nrows g"
  shows "\<exists>g'. set_treatment env (Column a) (Plan p) g = (g', [], None)
            \<and> getitem g' a = Inr (map (\<lambda>b. if b then Num 1 else Num 0) bs)
            \<and> nrows g' = nrows g"
  using assms
  by (simp add: set_treatment_def setitem_array_def np_where_def getitem_def nrows_def
      map_snd_zip_update)

lemma predict_outcome_returns:
  assumes len: "length (om (setitem_scalar g out NaN)) = nrows g"
    and w: "w = None \<or> (\<exists>wc wcol. w = Some wc \<and> getitem gft wc = Inr wcol
              \<and> length wcol = nrows g
              \<and> (\<forall>ws. all_numbers wcol = Some ws \<longrightarrow> sum_list ws \<noteq> 0))"
  shows "\<exists>t2 m. predict_outcome om out w gft g = (t2, Inr m)"
proof -
  obtain g2 where g2: "setitem_array (setitem_scalar g out NaN) out
      (map Num (om (setitem_scalar g out NaN))) = Inr g2"
    using len by (simp add: setitem_array_def)
  have col: "getitem g2 out = Inr (map Num (om (setitem_scalar g out NaN)))"
    using g2 by (rule getitem_setitem_array_same)
  from w show ?thesis
  proof
    assume "w = None"
    then show ?thesis by (simp add: predict_outcome_def Let_def g2 col)
  next
    assume "\<exists>wc wcol. w = Some wc \<and> getitem gft wc = Inr wcol \<and> length wcol = nrows g
              \<and> (\<forall>ws. all_numbers wcol = Some ws \<longrightarrow> sum_list ws \<noteq> 0)"
    then obtain wc wcol where ww: "w = Some wc" "getitem gft wc = Inr wcol"
      "length wcol = nrows g" "\<forall>ws. all_numbers wcol = Some ws \<longrightarrow> sum_list ws \<noteq> 0"
      by blast
    have "\<exists>m. np_average (map Num (om (setitem_scalar g out NaN))) wcol = Inr m"
      using ww(3,4) len by (simp add: np_average_def split: option.split)
    then show ?thesis
      using ww(1,2) by (auto simp: predict_outcome_def Let_def g2 col)
  qed
qed

lemma fit_returns_if:
  assumes mf: "model_fit self" and om: "fitted_outcome_model self = Some om"
    and st: "set_treatment env (exposure self) tr (objs s (gf self)) = (t1, ws, None)"
    and tr: "tr \<noteq> NotAPlan"
    and al: "gf self < fresh s"
    and po: "predict_outcome om (outcome self) (weights self) (objs s (gf self)) t1 = (t2, Inr m)"
  shows "raised (TimeFixedGFormula_fit env self tr s) = None"
    and "objs (heap (TimeFixedGFormula_fit env self tr s)) (fresh s) = t2"
    and "predicted_df (self_after (TimeFixedGFormula_fit env self tr s)) = Some (fresh s)"
    and "warned (TimeFixedGFormula_fit env self tr s) = ws"
  using om st al po
  by (simp_all add: fit_unfold [OF mf tr] Let_def)

lemma getitem_length: "getitem t c = Inr col \<Longrightarrow> length col = nrows t"
  by (auto simp: getitem_def nrows_def split: if_splits)

lemma set_treatment_plan_indicator:
  assumes "plan_indicator env p g = Inr col" and "length col = nrows g"
  shows "\<exists>g'. set_treatment env (Column a) (Plan p) g = (g', [], None)
            \<and> getitem g' a = Inr col \<and> nrows g' = nrows g"
proof (cases "p = ''all'' \<or> p = ''none''")
  case True
  then show ?thesis
    using assms
    by (auto simp: plan_indicator_def set_treatment_all set_treatment_none
        getitem_setitem_scalar_same)
next
  case False
  then obtain bs where "py_eval env p g = Inr bs"
    and "col = map (\<lambda>b. if b then Num 1 else Num 0) bs"
    using assms(1) by (auto simp: plan_indicator_def split: sum.splits)
  then show ?thesis
    using set_treatment_custom [where p = p and env = env and g = g and bs = bs and a = a]
      False assms(2) by auto
qed

lemma fit_binary_returns:
  assumes ex: "exposure self = Column a"
    and mf: "model_fit self" and om: "fitted_outcome_model self = Some om"
    and len: "\<forall>t. length (om t) = nrows t"
    and al: "gf self < fresh s"
    and w: "weights self = None
            \<or> (\<exists>wc wcol. weights self = Some wc \<and> getitem (objs s (gf self)) wc = Inr wcol
                  \<and> (\<forall>ws. all_numbers wcol = Some ws \<longrightarrow> sum_list ws \<noteq> 0))"
    and pi: "plan_indicator env p (objs s (gf self)) = Inr col"
    and lc: "length col = nrows (objs s (gf self))"
  shows "raised (TimeFixedGFormula_fit env self (Plan p) s) = None
       \<and> predicted_df (self_after (TimeFixedGFormula_fit env self (Plan p) s)) = Some (fresh s)
       \<and> (a \<noteq> outcome self \<longrightarrow>
            getitem (objs (heap (TimeFixedGFormula_fit env self (Plan p) s)) (fresh s)) a = Inr col)"
proof -
  from set_treatment_plan_indicator [OF pi lc, of a] obtain t1 where
      st: "set_treatment env (exposure self) (Plan p) (objs s (gf self)) = (t1, [], None)"
    and c1: "getitem t1 a = Inr col" and n1: "nrows t1 = nrows (objs s (gf self))"
    using ex by auto
  have w': "weights self = None
            \<or> (\<exists>wc wcol. weights self = Some wc \<and> getitem (objs s (gf self)) wc = Inr wcol
                  \<and> length wcol = nrows t1
                  \<and> (\<forall>ws. all_numbers wcol = Some ws \<longrightarrow> sum_list ws \<noteq> 0))"
    using w n1 by (auto dest: getitem_length)
  have "length (om (setitem_scalar t1 (outcome self) NaN)) = nrows t1"
    using len by simp
  from predict_outcome_returns [where om = om and g = t1 and out = "outcome self"
      and w = "weights self" and gft = "objs s (gf self)", OF this w'] obtain t2 m where
    po: "predict_outcome om (outcome self) (weights self) (objs s (gf self)) t1 = (t2, Inr m)"
    by blast
  have tr: "Plan p \<noteq> NotAPlan" by simp
  note R = fit_returns_if [OF mf om st tr al po]
  have "a \<noteq> outcome self \<Longrightarrow> getitem t2 a = Inr col"
    using predict_outcome_keeps [OF po] c1 by simp
  then show ?thesis
    using R by simp
qed

text \<open>
  Claim C2. With a scalar exposure \<open>a\<close>, the treatment step of \<open>fit\<close> never raises for
  the plans \<open>all\<close> and \<open>none\<close> and leaves 1, respectively 0, in every row of column
  \<open>a\<close> of the working table; for any other string whose predicate evaluates to one
  boolean for each row it does not raise either and leaves the predicate cast to 0 and 1;
  and whenever it raises nothing, column \<open>a\<close> is the plan as the specification words it.
  When \<open>fit\<close> returns, and the outcome is another column than the exposure, the stored
  working table \<open>predicted_df\<close> has that exposure column. And \<open>fit\<close> does return, with
  these columns, after the outcome model is fitted, when the fitted model predicts one
  value for each row and the weights, if configured, are a column whose sum is not zero.
\<close>

theorem binary_plan_sets_exposure:
  assumes "exposure self = Column a"
  shows "(\<forall>g. set_treatment env (Column a) (Plan ''all'') g = (setitem_scalar g a (Num 1), [], None)
            \<and> getitem (setitem_scalar g a (Num 1)) a = Inr (replicate (nrows g) (Num 1)))
       \<and> (\<forall>g. set_treatment env (Column a) (Plan ''none'') g = (setitem_scalar g a (Num 0), [], None)
            \<and> getitem (setitem_scalar g a (Num 0)) a = Inr (replicate (nrows g) (Num 0)))
       \<and> (\<forall>g bs. p \<noteq> ''all'' \<and> p \<noteq> ''none'' \<and> py_eval env p g = Inr bs \<and> length bs = nrows g
            \<longrightarrow> (\<exists>g'. set_treatment env (Column a) (Plan p) g = (g', [], None)
                   \<and> getitem g' a = Inr (map (\<lambda>b. if b then Num 1 else Num 0) bs)))
       \<and> (\<forall>g g' ws. set_treatment env (Column a) (Plan p) g = (g', ws, None)
            \<longrightarrow> getitem g' a = plan_indicator env p g)
       \<and> (raised (TimeFixedGFormula_fit env self (Plan p) s) = None \<and> a \<noteq> outcome self
            \<longrightarrow> (\<exists>g. predicted_df (self_after (TimeFixedGFormula_fit env self (Plan p) s)) = Some g
                   \<and> getitem (objs (heap (TimeFixedGFormula_fit env self (Plan p) s)) g) a
                       = plan_indicator env p (objs s (gf self))))
       \<and> (model_fit self \<and> fitted_outcome_model self = Some om \<and> (\<forall>t. length (om t) = nrows t)
          \<and> gf self < fresh s
          \<and> (weights self = None
              \<or> (\<exists>wc wcol. weights self = Some wc \<and> getitem (objs s (gf self)) wc = Inr wcol
                    \<and> (\<forall>ws. all_numbers wcol = Some ws \<longrightarrow> sum_list ws \<noteq> 0)))
          \<longrightarrow> raised (TimeFixedGFormula_fit env self (Plan ''all'') s) = None
              \<and> raised (TimeFixedGFormula_fit env self (Plan ''none'') s) = None
              \<and> (a \<noteq> outcome self \<longrightarrow>
                    getitem (objs (heap (TimeFixedGFormula_fit env self (Plan ''all'') s)) (fresh s)) a
                      = Inr (replicate (nrows (objs s (gf self))) (Num 1))
                  \<and> getitem (objs (heap (TimeFixedGFormula_fit env self (Plan ''none'') s)) (fresh s)) a
                      = Inr (replicate (nrows (objs s (gf self))) (Num 0)))
              \<and> (\<forall>col. plan_indicator env p (objs s (gf self)) = Inr col
                         \<and> length col = nrows (objs s (gf self))
                    \<longrightarrow> raised (TimeFixedGFormula_fit env self (Plan p) s) = None
                        \<and> (a \<noteq> outcome self \<longrightarrow>
                             getitem (objs (heap (TimeFixedGFormula_fit env self (Plan p) s)) (fresh s)) a
                               = Inr col)))"
proof (intro conjI allI impI)
  fix g
  show "set_treatment env (Column a) (Plan ''all'') g = (setitem_scalar g a (Num 1), [], None)"
    by (rule set_treatment_all)
  show "getitem (setitem_scalar g a (Num 1)) a = Inr (replicate (nrows g) (Num 1))"
    by (rule getitem_setitem_scalar_same)
  show "set_treatment env (Column a) (Plan ''none'') g = (setitem_scalar g a (Num 0), [], None)"
    by (rule set_treatment_none)
  show "getitem (setitem_scalar g a (Num 0)) a = Inr (replicate (nrows g) (Num 0))"
    by (rule getitem_setitem_scalar_same)
next
  fix g bs
  assume "p \<noteq> ''all'' \<and> p \<noteq> ''none'' \<and> py_eval env p g = Inr bs \<and> length bs = nrows g"
  then show "\<exists>g'. set_treatment env (Column a) (Plan p) g = (g', [], None)
                   \<and> getitem g' a = Inr (map (\<lambda>b. if b then Num 1 else Num 0) bs)"
    using set_treatment_custom [where p = p and env = env and g = g and bs = bs and a = a]
    by blast
next
  fix g g' ws
  assume "set_treatment env (Column a) (Plan p) g = (g', ws, None)"
  then show "getitem g' a = plan_indicator env p g"
    by (rule set_treatment_binary)
next
  assume h: "raised (TimeFixedGFormula_fit env self (Plan p) s) = None \<and> a \<noteq> outcome self"
  then have ok: "raised (TimeFixedGFormula_fit env self (Plan p) s) = None" by simp
  from fit_returns [OF ok] obtain om t1 ws t2 m where
      st: "set_treatment env (exposure self) (Plan p) (objs s (gf self)) = (t1, ws, None)"
    and po: "predict_outcome om (outcome self) (weights self)
         (if gf self = fresh s then t1 else objs s (gf self)) t1 = (t2, Inr m)"
    and sa: "self_after (TimeFixedGFormula_fit env self (Plan p) s)
         = self\<lparr>marginal_outcome := Some m, predicted_df := Some (fresh s)\<rparr>"
    and hp: "objs (heap (TimeFixedGFormula_fit env self (Plan p) s)) = (objs s)(fresh s := t2)"
    by (elim exE conjE) (rule that)
  have "getitem t2 a = getitem t1 a"
    using predict_outcome_keeps [OF po] h by simp
  also have "\<dots> = plan_indicator env p (objs s (gf self))"
    using st assms by (simp add: set_treatment_binary)
  finally show "\<exists>g. predicted_df (self_after (TimeFixedGFormula_fit env self (Plan p) s)) = Some g
                   \<and> getitem (objs (heap (TimeFixedGFormula_fit env self (Plan p) s)) g) a
                       = plan_indicator env p (objs s (gf self))"
    by (simp add: sa hp)
next
  assume h: "model_fit self \<and> fitted_outcome_model self = Some om \<and> (\<forall>t. length (om t) = nrows t)
          \<and> gf self < fresh s
          \<and> (weights self = None
              \<or> (\<exists>wc wcol. weights self = Some wc \<and> getitem (objs s (gf self)) wc = Inr wcol
                    \<and> (\<forall>ws. all_numbers wcol = Some ws \<longrightarrow> sum_list ws \<noteq> 0)))"
  then have mf: "model_fit self" and om: "fitted_outcome_model self = Some om"
    and len: "\<forall>t. length (om t) = nrows t" and al: "gf self < fresh s"
    and w: "weights self = None
              \<or> (\<exists>wc wcol. weights self = Some wc \<and> getitem (objs s (gf self)) wc = Inr wcol
                    \<and> (\<forall>ws. all_numbers wcol = Some ws \<longrightarrow> sum_list ws \<noteq> 0))"
    by blast+
  note F = fit_binary_returns [OF assms mf om len al w]
  have p1: "plan_indicator env ''all'' (objs s (gf self))
      = Inr (replicate (nrows (objs s (gf self))) (Num 1))"
    and p0: "plan_indicator env ''none'' (objs s (gf self))
      = Inr (replicate (nrows (objs s (gf self))) (Num 0))"
    by (simp_all add: plan_indicator_def)
  show "raised (TimeFixedGFormula_fit env self (Plan ''all'') s) = None"
    using F [OF p1] by simp
  show "raised (TimeFixedGFormula_fit env self (Plan ''none'') s) = None"
    using F [OF p0] by simp
  show "getitem (objs (heap (TimeFixedGFormula_fit env self (Plan ''all'') s)) (fresh s)) a
          = Inr (replicate (nrows (objs s (gf self))) (Num 1))" if "a \<noteq> outcome self"
    using F [OF p1] that by simp
  show "getitem (objs (heap (TimeFixedGFormula_fit env self (Plan ''none'') s)) (fresh s)) a
          = Inr (replicate (nrows (objs s (gf self))) (Num 0))" if "a \<noteq> outcome self"
    using F [OF p0] that by simp
  fix col
  assume c: "plan_indicator env p (objs s (gf self)) = Inr col
                         \<and> length col = nrows (objs s (gf self))"
  then have c1: "plan_indicator env p (objs s (gf self)) = Inr col"
    and c2: "length col = nrows (objs s (gf self))"
    by simp_all
  show "raised (TimeFixedGFormula_fit env self (Plan p) s) = None"
    using F [OF c1 c2] by simp
  show "getitem (objs (heap (TimeFixedGFormula_fit env self (Plan p) s)) (fresh s)) a = Inr col"
    if "a \<noteq> outcome self"
    using F [OF c1 c2] that by simp
qed

text \<open>
  Claim C3. When \<open>fit\<close> returns, the predictions of the fitted model on the modified
  working table are in its outcome column, and \<open>marginal_outcome\<close> is their arithmetic
  mean when no weights column is configured (NaN when there is no row), and their
  average weighted by the weights column of the stored table when one is configured
  (NaN when a weight is missing).
\<close>

theorem marginal_outcome_is_mean:
  assumes ok: "raised (TimeFixedGFormula_fit env self tr s) = None"
    and alloc: "gf self < fresh s"
  shows "\<exists>om g preds.
      fitted_outcome_model self = Some om
    \<and> predicted_df (self_after (TimeFixedGFormula_fit env self tr s)) = Some g
    \<and> preds = om (setitem_scalar (fst (set_treatment env (exposure self) tr (objs s (gf self))))
                   (outcome self) NaN)
    \<and> getitem (objs (heap (TimeFixedGFormula_fit env self tr s)) g) (outcome self)
        = Inr (map Num preds)
    \<and> (weights self = None \<longrightarrow>
         marginal_outcome (self_after (TimeFixedGFormula_fit env self tr s))
           = Some (if preds = [] then NaN else Num (arithmetic_mean preds)))
    \<and> (\<forall>wc. weights self = Some wc \<longrightarrow>
         (\<exists>wcol. getitem (objs s (gf self)) wc = Inr wcol
           \<and> marginal_outcome (self_after (TimeFixedGFormula_fit env self tr s))
               = Some (case all_numbers wcol of
                         None \<Rightarrow> NaN
                       | Some ws \<Rightarrow> Num (weighted_average preds ws))))"
proof -
  from fit_returns [OF ok] alloc obtain om t1 ws t2 m where
      om: "fitted_outcome_model self = Some om"
    and st: "set_treatment env (exposure self) tr (objs s (gf self)) = (t1, ws, None)"
    and po: "predict_outcome om (outcome self) (weights self) (objs s (gf self)) t1 = (t2, Inr m)"
    and sa: "self_after (TimeFixedGFormula_fit env self tr s)
         = self\<lparr>marginal_outcome := Some m, predicted_df := Some (fresh s)\<rparr>"
    and hp: "objs (heap (TimeFixedGFormula_fit env self tr s)) = (objs s)(fresh s := t2)"
    by (auto split: if_splits)
  let ?preds = "om (setitem_scalar t1 (outcome self) NaN)"
  have col: "getitem t2 (outcome self) = Inr (map Num ?preds)"
    using predict_outcome_ok(1) [OF po] by (rule getitem_setitem_array_same)
  have unw: "weights self = None \<Longrightarrow> m = (if ?preds = [] then NaN else Num (arithmetic_mean ?preds))"
    using predict_outcome_ok(2) [OF po] by (simp add: np_mean_numbers)
  have wtd: "\<exists>wcol. getitem (objs s (gf self)) wc = Inr wcol
           \<and> m = (case all_numbers wcol of None \<Rightarrow> NaN | Some ws \<Rightarrow> Num (weighted_average ?preds ws))"
    if "weights self = Some wc" for wc
    using predict_outcome_ok(3) [OF po that] np_average_numbers by blast
  show ?thesis
    using om col unw wtd by (simp add: sa hp st)
qed

text \<open>
  Claim C5. \<open>GEstimationSNM.fit\<close> with \<open>solver='search'\<close> always raises the error of
  \<open>_grid_search_\<close>, a ValueError saying that the solver is not implemented, and leaves
  the instance as it was; any solver other than \<open>closed\<close> and \<open>search\<close> raises the
  ValueError of the configuration.
\<close>

theorem solver_dispatch:
  "snd (GEstimationSNM_fit env self ''search'' sv av) = Some (ValueError ''Not implemented yet'')
   \<and> fst (GEstimationSNM_fit env self ''search'' sv av) = self
   \<and> (solver \<noteq> ''closed'' \<and> solver \<noteq> ''search'' \<longrightarrow>
        GEstimationSNM_fit env self solver sv av = (self, Some (ValueError msg_solver)))"
  by (simp add: GEstimationSNM_fit_def grid_search_def)

theorem solver_dispatch_witness:
  "''newton'' \<noteq> ''closed'' \<and> ''newton'' \<noteq> ''search''
   \<and> GEstimationSNM_fit example_env (example_snm None) ''newton'' None 0
       = (example_snm None, Some (ValueError msg_solver))"
  using solver_dispatch [of example_env "example_snm None" None 0 "''newton''"]
  by simp

text \<open>
  Claim C10. With \<open>solver='closed'\<close>, the instance that \<open>fit\<close> leaves (so \<open>psi\<close> and
  \<open>psi_labels\<close>) and the error it raises do not depend on \<open>starting_value\<close> and
  \<open>alpha_value\<close>.
\<close>

theorem closed_ignores_starting_value_and_alpha:
  "GEstimationSNM_fit env self ''closed'' sv1 av1 = GEstimationSNM_fit env self ''closed'' sv2 av2"
  by (simp add: GEstimationSNM_fit_def)

lemma example_frame_eq: "reset_index (dropna example_table) = Inr example_frame"
  by (simp add: example_frame_def reset_index_def dropna_def example_table_def Let_def)

lemma example_init:
  "GEstimationSNM_init 0 ''A'' ''Y'' w example_store
     = (Inr (example_snm w), [], snd (df_copy 0 example_store))"
  apply (simp add: GEstimationSNM_init_def Let_def case_prod_unfold example_store_def example_frame_eq)
  apply (simp add: example_snm_def example_frame_def reset_index_def dropna_def example_table_def Let_def
     getitem_def values_in_01_def nrows_def complete_row_def cell_value_def)
  done

lemma fit_without_model:
  "\<not> model_fit self \<Longrightarrow>
   TimeFixedGFormula_fit env self tr s
     = \<lparr>self_after = self, raised = Some (ValueError msg_no_model), warned = [], heap = s\<rparr>"
  by (simp add: TimeFixedGFormula_fit_def)

lemma closed_without_snm:
  "snm_model self = None \<Longrightarrow>
   GEstimationSNM_fit env self ''closed'' sv av = (self, Some (TypeError msg_none_plus_str))"
  by (simp add: GEstimationSNM_fit_def)

lemma closed_without_treatment_model:
  assumes "snm_treatment_model self = None"
  shows "(\<exists>e. snd (GEstimationSNM_fit env self ''closed'' sv av) = Some e)
       \<and> psi (fst (GEstimationSNM_fit env self ''closed'' sv av)) = psi self"
  using assms
  by (simp add: GEstimationSNM_fit_def Let_def split: option.split sum.split)

lemma closed_without_treatment_model_type_error:
  assumes "snm_treatment_model self = None" "snm_model self = Some f"
    and "dmatrix env (f @ '' - 1'') (snm_df self) = Inr m"
    and "drop_column (snm_df self) (snm_treatment self) = Inr yf0"
    and "dmatrix env (f @ '' - 1'') (rename_column yf0 (snm_outcome self) (snm_treatment self)) = Inr y"
  shows "snd (GEstimationSNM_fit env self ''closed'' sv av) = Some (TypeError msg_str_plus_none)"
  using assms
  by (simp add: GEstimationSNM_fit_def Let_def)

text \<open>
  Claim C4, as the code has it. \<open>TimeFixedGFormula.fit\<close> before \<open>outcome_model\<close> raises
  the ValueError of the configuration and changes nothing. \<open>GEstimationSNM.fit\<close> has no
  such check: in the closed form it fails when a formula is missing, and \<open>psi\<close> is not
  assigned, but the error is the TypeError of concatenating \<open>None\<close> and a string (when
  the structural nested model is missing; when only the treatment model is missing, and
  the design matrices are built, likewise).
\<close>

theorem fit_before_model_specification:
  "(\<not> model_fit gself \<longrightarrow>
      raised (TimeFixedGFormula_fit env gself tr s) = Some (ValueError msg_no_model)
      \<and> self_after (TimeFixedGFormula_fit env gself tr s) = gself
      \<and> heap (TimeFixedGFormula_fit env gself tr s) = s)
   \<and> (snm_model self = None \<longrightarrow>
        GEstimationSNM_fit env self ''closed'' sv av = (self, Some (TypeError msg_none_plus_str)))
   \<and> (snm_treatment_model self = None \<longrightarrow>
        (\<exists>e. snd (GEstimationSNM_fit env self ''closed'' sv av) = Some e)
        \<and> psi (fst (GEstimationSNM_fit env self ''closed'' sv av)) = psi self)
   \<and> (snm_treatment_model self = None \<and> snm_model self = Some f
        \<and> dmatrix env (f @ '' - 1'') (snm_df self) = Inr m
        \<and> drop_column (snm_df self) (snm_treatment self) = Inr yf0
        \<and> dmatrix env (f @ '' - 1'') (rename_column yf0 (snm_outcome self) (snm_treatment self)) = Inr y
       \<longrightarrow> snd (GEstimationSNM_fit env self ''closed'' sv av) = Some (TypeError msg_str_plus_none))"
  using closed_without_treatment_model [of self env sv av]
    closed_without_treatment_model_type_error [of self f env m yf0 y sv av]
  by (simp add: fit_without_model closed_without_snm)

text \<open>
  Claim C4 as stated fails: on the example, \<open>GEstimationSNM.fit\<close> before the
  structural nested model, or before the treatment model, raises TypeError, not the
  ValueError of a configuration error.
\<close>

theorem snm_fit_unconfigured_counterexample:
  "GEstimationSNM_init 0 ''A'' ''Y'' None example_store
     = (Inr (example_snm None), [], snd (df_copy 0 example_store))
   \<and> snd (GEstimationSNM_fit example_env (example_snm None) ''closed'' None 0)
       = Some (TypeError msg_none_plus_str)
   \<and> snd (GEstimationSNM_fit example_env (structural_nested_model (example_snm None) ''A'')
            ''closed'' None 0)
       = Some (TypeError msg_str_plus_none)"
  apply (intro conjI)
    apply (rule example_init)
   apply (simp add: GEstimationSNM_fit_def example_snm_def)
  apply (simp add: GEstimationSNM_fit_def example_snm_def structural_nested_model_def
      example_env_def drop_column_def example_frame_def reset_index_def dropna_def
      example_table_def Let_def)
  done

lemma values_in_01_iff: "values_in_01 col \<longleftrightarrow> list_all (\<lambda>v. v = 0 \<or> v = 1) col"
  by (auto simp: values_in_01_def list_all_iff)

text \<open>
  Claim C6, as the code has it. When the exposure is a column of the table left by
  \<open>dropna\<close> and \<open>reset_index\<close>, construction raises ValueError exactly when the
  column holds a value other than 0 and 1; a column of values all 0, all 1, or without
  rows is accepted.
\<close>

theorem binary_exposure_required:
  assumes "reset_index (dropna (objs s df)) = Inr d" and "getitem d ex = Inr col"
  shows "fst (GEstimationSNM_init df ex out w s)
     = (if list_all (\<lambda>v. v = 0 \<or> v = 1) col
        then Inr \<lparr>snm_df = d, snm_treatment = ex, snm_outcome = out, psi = None,
                  psi_labels = None, snm_weights = w, snm_treatment_model = None,
                  snm_model = None, snm_print_results = True\<rparr>
        else Inl (ValueError msg_binary_only))"
  using assms
  by (simp add: GEstimationSNM_init_def Let_def case_prod_unfold values_in_01_iff)

text \<open>
  Claim C6 as stated fails: the exposure of \<open>treated_table\<close> has the single distinct
  value 1, which is not the set of 0 and 1, and construction succeeds.
\<close>

theorem binary_exposure_counterexample:
  "getitem (dropna treated_table) ''A'' = Inr [1, 1]
   \<and> \<not> isl (fst (GEstimationSNM_init 0 ''A'' ''Y'' None treated_store))"
  by (simp add: GEstimationSNM_init_def Let_def case_prod_unfold treated_store_def
      treated_table_def reset_index_def dropna_def getitem_def values_in_01_def nrows_def
      complete_row_def cell_value_def df_copy_def df_new_def)

lemma fit_frame:
  "a < fresh s \<Longrightarrow> objs (heap (TimeFixedGFormula_fit env self tr s)) a = objs s a"
  "fresh s \<le> fresh (heap (TimeFixedGFormula_fit env self tr s))"
  by (simp_all add: TimeFixedGFormula_fit_def Let_def case_prod_unfold
      split: option.split sum.split)

lemma run_gformula_frame:
  "a < fresh s \<Longrightarrow> objs (snd (run_gformula env calls self s)) a = objs s a"
proof (induction calls arbitrary: self s)
  case Nil
  then show ?case by simp
next
  case (Cons c calls)
  show ?case
  proof (cases c)
    case (Call_outcome_model model print_results)
    then show ?thesis using Cons by simp
  next
    case (Call_fit tr)
    have "a < fresh (heap (TimeFixedGFormula_fit env self tr s))"
      using Cons.prems fit_frame(2) [of s env self tr] by simp
    then have "objs (snd (run_gformula env calls (self_after (TimeFixedGFormula_fit env self tr s))
                 (heap (TimeFixedGFormula_fit env self tr s)))) a
             = objs (heap (TimeFixedGFormula_fit env self tr s)) a"
      by (rule Cons.IH)
    then show ?thesis
      using Call_fit Cons.prems by (simp add: fit_frame(1))
  qed
qed

lemma gformula_init_frame:
  "df < fresh s \<Longrightarrow> objs (snd (TimeFixedGFormula_init df ex out otype w s)) df = objs s df"
  "fresh (snd (TimeFixedGFormula_init df ex out otype w s)) = Suc (fresh s)"
  "fst (TimeFixedGFormula_init df ex out otype w s) = Inr self \<Longrightarrow>
     gf self = fresh s \<and> objs (snd (TimeFixedGFormula_init df ex out otype w s)) (gf self) = objs s df"
  by (auto simp: TimeFixedGFormula_init_def Let_def case_prod_unfold split: if_splits)

lemma snm_init_frame:
  "df < fresh s \<Longrightarrow> objs (snd (snd (GEstimationSNM_init df ex out w s))) df = objs s df"
  by (simp add: GEstimationSNM_init_def Let_def case_prod_unfold split: sum.split)

text \<open>
  Claim C9. The caller's table, an object allocated before the estimator is constructed,
  has the same contents after construction and after any sequence of calls of
  \<open>outcome_model\<close> and \<open>fit\<close> on a \<open>TimeFixedGFormula\<close>, whose stored table is another
  object with the contents of the caller's; and after constructing a \<open>GEstimationSNM\<close>.
\<close>

theorem caller_table_never_modified:
  assumes "df < fresh s"
  shows "objs (snd (TimeFixedGFormula_init df ex out otype w s)) df = objs s df
       \<and> (\<forall>self. fst (TimeFixedGFormula_init df ex out otype w s) = Inr self \<longrightarrow>
             gf self \<noteq> df
           \<and> objs (snd (TimeFixedGFormula_init df ex out otype w s)) (gf self) = objs s df
           \<and> objs (snd (run_gformula env calls self
                          (snd (TimeFixedGFormula_init df ex out otype w s)))) df = objs s df)
       \<and> objs (snd (snd (GEstimationSNM_init df ex' out' w' s))) df = objs s df"
proof (intro conjI allI impI)
  show "objs (snd (TimeFixedGFormula_init df ex out otype w s)) df = objs s df"
    using assms by (rule gformula_init_frame(1))
next
  fix self
  assume ok: "fst (TimeFixedGFormula_init df ex out otype w s) = Inr self"
  show "gf self \<noteq> df"
    using gformula_init_frame(3) [OF ok] assms by simp
  show "objs (snd (TimeFixedGFormula_init df ex out otype w s)) (gf self) = objs s df"
    using gformula_init_frame(3) [OF ok] by (rule conjunct2)
  have "df < fresh (snd (TimeFixedGFormula_init df ex out otype w s))"
    using assms by (simp add: gformula_init_frame(2))
  then show "objs (snd (run_gformula env calls self
                          (snd (TimeFixedGFormula_init df ex out otype w s)))) df = objs s df"
    using assms by (simp add: run_gformula_frame gformula_init_frame(1))
next
  show "objs (snd (snd (GEstimationSNM_init df ex' out' w' s))) df = objs s df"
    using assms by (rule snm_init_frame)
qed

lemma set_treatment_overlap_warning:
  assumes "set_treatment env (Columns es) tr g = (g', ws, None)"
  shows "ws = (if overlapping_rows es g' > 1 then [OverlappingExposures] else [])"
  using assms
  by (auto simp: set_treatment_def split: if_splits prod.splits option.splits)

lemmas example_defs = example_table_def example_model_def example_env_def example_store_def
  example_gformula_def TimeFixedGFormula_fit_def set_treatment_def predict_outcome_def
  df_copy_def df_new_def df_write_def setitem_scalar_def setitem_array_def getitem_def
  with_column_def nrows_def np_where_def np_mean_def np_average_def cell_value_def
  plan_len_def plan_items_def overlapping_rows_def

text \<open>
  Claim C8 on the example: the predicates \<open>g.Y == 1\<close> and \<open>g.L == 0\<close> for the indicators
  \<open>A\<close> and \<open>B\<close> both hold in the first row and only there, so that row has two
  indicators equal to 1; \<open>fit\<close> returns and issues no warning, since the source compares
  the number of such rows with \<open>> 1\<close>.
\<close>

theorem overlap_in_one_row_not_warned:
  "raised (TimeFixedGFormula_fit example_env (example_gformula (Columns [''A'', ''B'']) None)
             (Plans [''g.Y == 1'', ''g.L == 0'']) example_store) = None
   \<and> getitem (objs (heap (TimeFixedGFormula_fit example_env
          (example_gformula (Columns [''A'', ''B'']) None)
          (Plans [''g.Y == 1'', ''g.L == 0'']) example_store)) 1) ''A'' = Inr [Num 1, Num 0]
   \<and> getitem (objs (heap (TimeFixedGFormula_fit example_env
          (example_gformula (Columns [''A'', ''B'']) None)
          (Plans [''g.Y == 1'', ''g.L == 0'']) example_store)) 1) ''B'' = Inr [Num 1, Num 0]
   \<and> warned (TimeFixedGFormula_fit example_env (example_gformula (Columns [''A'', ''B'']) None)
             (Plans [''g.Y == 1'', ''g.L == 0'']) example_store) = []"
  by (simp add: example_defs Let_def)

text \<open>
  Claim C1 on the example with a weights column: the constructor accepts the weights
  label \<open>w\<close>, and the closed form raises TypeError at \<open>diff * weights\<close>, the product of
  the residuals and the label, where the claim has the product with the weights of the
  rows.
\<close>

theorem weighted_closed_form_raises:
  "GEstimationSNM_init 0 ''A'' ''Y'' (Some ''w'') example_store
     = (Inr (example_snm (Some ''w'')), [], snd (df_copy 0 example_store))
   \<and> snd (GEstimationSNM_fit example_env
            (structural_nested_model (treatment_model (example_snm (Some ''w'')) ''L'' False) ''A'')
            ''closed'' None 0)
       = Some (TypeError msg_mul_str)"
  apply (intro conjI)
   apply (rule example_init)
  apply (simp add: GEstimationSNM_fit_def example_snm_def structural_nested_model_def
      treatment_model_def closed_form_solver_def series_mul_def getitem_def
      example_env_def drop_column_def example_frame_def reset_index_def dropna_def
      example_table_def Let_def)
  done

lemma unweighted_example:
  "GEstimationSNM_fit example_env
            (structural_nested_model (treatment_model (example_snm None) ''L'' False) ''A'')
            ''closed'' None 0
       = ((structural_nested_model (treatment_model (example_snm None) ''L'' False) ''A'')
            \<lparr>psi_labels := Some [''A''], psi := Some [1]\<rparr>, None)"
  apply (simp add: GEstimationSNM_fit_def example_snm_def structural_nested_model_def
      treatment_model_def closed_form_solver_def series_mul_def getitem_def
      example_env_def drop_column_def rename_column_def example_frame_def reset_index_def dropna_def
      example_table_def Let_def mul_axis0_def np_dot_T_def frame_sum_def complete_row_def cell_value_def)
  done

text \<open>
  Without a weights column the closed form is the one of the specification: the matrix
  and the vector handed to the solver are \<open>spec_lhm\<close> and \<open>spec_rha\<close> of the residuals
  (observed exposure minus predicted probability), when the design matrices and the
  predictions have one row for each row of the table; with a weights column it never
  returns.
\<close>

lemma zip_as_nth:
  "length xs = length ys \<Longrightarrow> zip xs ys = map (\<lambda>i. (xs ! i, ys ! i)) [0..<length xs]"
  by (rule nth_equalityI) simp_all

lemma map_as_nth: "map f xs = map (\<lambda>i. f (xs ! i)) [0..<length xs]"
  by (rule nth_equalityI) simp_all

lemma sum_list_delta:
  "j < n \<Longrightarrow> sum_list (map (\<lambda>i. f i * (if i = j then c i else 0)) [0..<n]) = f j * (c j :: real)"
proof -
  assume j: "j < n"
  have "sum_list (map (\<lambda>i. f i * (if i = j then c i else 0)) [0..<n])
      = (\<Sum>i\<in>{0..<n}. if i = j then f i * c i else 0)"
    by (simp add: interv_sum_list_conv_sum_set_nat if_distrib [of "\<lambda>x. _ * x"] cong: if_cong)
  also have "\<dots> = f j * c j"
    using j by (simp add: sum.delta)
  finally show ?thesis .
qed

lemma rows_mul_axis0:
  assumes "nrows m = length d" and "i < length d"
  shows "snd (rows (mul_axis0 m d) ! i) c = snd (rows m ! i) c * d ! i"
  using assms by (simp add: mul_axis0_def nrows_def case_prod_unfold)

lemma length_rows_mul_axis0:
  "nrows m = length d \<Longrightarrow> length (rows (mul_axis0 m d)) = length d"
  by (simp add: mul_axis0_def nrows_def)

lemma columns_mul_axis0 [simp]: "columns (mul_axis0 m d) = columns m"
  by (simp add: mul_axis0_def)

lemma lhm_entry:
  assumes n: "nrows m = length d"
  shows "sum_list (map (\<lambda>((i, r), (j, r')). r ca * r' cb) (zip (rows (mul_axis0 m d)) (rows m)))
       = sum_list (map (\<lambda>i. snd (rows m ! i) ca * d ! i * snd (rows m ! i) cb) [0..<length d])"
proof -
  have len: "length (rows (mul_axis0 m d)) = length (rows m)"
    using n by (simp add: length_rows_mul_axis0 nrows_def)
  have "map (\<lambda>((i, r), (j, r')). r ca * r' cb) (zip (rows (mul_axis0 m d)) (rows m))
      = map (\<lambda>i. snd (rows (mul_axis0 m d) ! i) ca * snd (rows m ! i) cb) [0..<length d]"
    using n by (simp add: zip_as_nth [OF len] length_rows_mul_axis0 case_prod_unfold comp_def)
  also have "\<dots> = map (\<lambda>i. snd (rows m ! i) ca * d ! i * snd (rows m ! i) cb) [0..<length d]"
    using n by (simp add: rows_mul_axis0)
  finally show ?thesis by simp
qed

lemma np_dot_T_is_spec_lhm:
  assumes n: "nrows m = length d"
  shows "np_dot_T (mul_axis0 m d) m = spec_lhm m d"
proof -
  have inner: "sum_list (map (\<lambda>k. sum_list (map (\<lambda>i. snd (rows m ! i) ca * (if i = k then d ! i else 0))
                              [0..<length d]) * snd (rows m ! k) cb) [0..<length d])
      = sum_list (map (\<lambda>i. snd (rows m ! i) ca * d ! i * snd (rows m ! i) cb) [0..<length d])"
    for ca cb
    by (rule arg_cong [where f = sum_list], rule map_cong)
       (simp_all add: sum_list_delta [where c = "\<lambda>i. d ! i"])
  show ?thesis
    using n
    by (simp add: np_dot_T_def spec_lhm_def mat_rows_def mat_mul_def mat_transpose_def
        mat_diag_def frame_matrix_def lhm_entry inner nrows_def
        map_as_nth [of _ "columns m"])
qed

lemma rha_entry:
  assumes n: "nrows m = length d"
  shows "sum_list (map (\<lambda>(i, r). r c) (rows (mul_axis0 m d)))
       = sum_list (map (\<lambda>i. d ! i * snd (rows m ! i) c) [0..<length d])"
proof -
  have "map (\<lambda>(i, r). r c) (rows (mul_axis0 m d))
      = map (\<lambda>i. snd (rows (mul_axis0 m d) ! i) c) [0..<length d]"
    using n by (simp add: map_as_nth [of _ "rows (mul_axis0 m d)"] length_rows_mul_axis0
        case_prod_unfold)
  also have "\<dots> = map (\<lambda>i. d ! i * snd (rows m ! i) c) [0..<length d]"
    using n by (simp add: rows_mul_axis0 mult.commute)
  finally show ?thesis by simp
qed

lemma frame_sum_is_spec_rha:
  assumes n: "nrows m = length d"
  shows "frame_sum (mul_axis0 m d) = spec_rha m d"
  using n
  by (simp add: frame_sum_def spec_rha_def frame_matrix_def rha_entry
      map_as_nth [of _ "columns m"])

lemma closed_form_unweighted:
  assumes ps: "propensity_score env df model None print_results = Inr fm"
    and col: "getitem df treat = Inr a"
    and np: "length (fm df) = nrows df"
    and ns: "nrows snm_matrix = nrows df"
    and ny: "nrows y_matrix = nrows df"
  shows "closed_form_solver env treat model df snm_matrix y_matrix None print_results
       = linalg_solve env (spec_lhm snm_matrix (map (\<lambda>(x, p). x - p) (zip a (fm df))))
           (spec_rha y_matrix (map (\<lambda>(x, p). x - p) (zip a (fm df))))"
proof -
  have la: "length a = nrows df"
    using col by (auto simp: getitem_def nrows_def split: if_splits)
  have ld: "length (map (\<lambda>(x, p). x - p) (zip a (fm df))) = nrows df"
    using la np by simp
  show ?thesis
    using ps col
    by (simp add: closed_form_solver_def Let_def np_dot_T_is_spec_lhm frame_sum_is_spec_rha
        ns ny ld del: length_map)
qed

lemma closed_form_weighted_never_returns:
  "closed_form_solver env treat model df snm_matrix y_matrix (Some w) print_results \<noteq> Inr p"
  by (simp add: closed_form_solver_def Let_def series_mul_def split: sum.split)

lemma closed_form_weighted_type_error:
  assumes "propensity_score env df model (Some w) print_results = Inr fm"
    and "getitem df treat = Inr a"
  shows "closed_form_solver env treat model df snm_matrix y_matrix (Some w) print_results
       = Inl (TypeError msg_mul_str)"
  using assms by (simp add: closed_form_solver_def Let_def series_mul_def)

lemma closed_form_unweighted_solution:
  assumes ps: "propensity_score env df model None print_results = Inr fm"
    and col: "getitem df treat = Inr a"
    and np: "length (fm df) = nrows df"
    and ns: "nrows snm_matrix = nrows df"
    and ny: "nrows y_matrix = nrows df"
    and ret: "closed_form_solver env treat model df snm_matrix y_matrix None print_results = Inr p"
    and solver: "\<And>m b x. linalg_solve env m b = Inr x \<Longrightarrow> mat_vec m x = b"
  shows "mat_vec (spec_lhm snm_matrix (map (\<lambda>(x, p). x - p) (zip a (fm df)))) p
       = spec_rha y_matrix (map (\<lambda>(x, p). x - p) (zip a (fm df)))"
  using ret solver unfolding closed_form_unweighted [OF ps col np ns ny] by blast

lemma example_solve_sound: "example_solve m b = Inr x \<Longrightarrow> mat_vec m x = b"
  by (erule example_solve.elims) (auto simp: mat_vec_def split: if_splits)

theorem multivariate_plan_rejected_witness:
  "exposure (example_gformula (Columns [''A'', ''B'']) None) = Columns [''A'', ''B'']
   \<and> length [''g.L == 1''] \<noteq> length [''A'', ''B'']
   \<and> raised (TimeFixedGFormula_fit example_env (example_gformula (Columns [''A'', ''B'']) None)
        (Plan ''all'') example_store) = Some (ValueError msg_multivariate)
   \<and> raised (TimeFixedGFormula_fit example_env (example_gformula (Columns [''A'', ''B'']) None)
        (Plan ''none'') example_store) = Some (ValueError msg_multivariate)
   \<and> raised (TimeFixedGFormula_fit example_env (example_gformula (Columns [''A'', ''B'']) None)
        (Plans [''g.L == 1'']) example_store) = Some (ValueError msg_size)"
proof -
  have ex: "exposure (example_gformula (Columns [''A'', ''B'']) None) = Columns [''A'', ''B'']"
    by (simp add: example_gformula_def)
  show ?thesis
    using multivariate_plan_rejected [OF ex, of example_env example_store "[''g.L == 1'']"]
    by (simp add: example_gformula_def)
qed

theorem binary_plan_sets_exposure_witness:
  "exposure (example_gformula (Column ''A'') None) = Column ''A''
   \<and> model_fit (example_gformula (Column ''A'') None)
   \<and> fitted_outcome_model (example_gformula (Column ''A'') None) = Some example_model
   \<and> gf (example_gformula (Column ''A'') None) < fresh example_store
   \<and> weights (example_gformula (Column ''A'') None) = None
   \<and> ''A'' \<noteq> outcome (example_gformula (Column ''A'') None)
   \<and> set_treatment example_env (Column ''A'') (Plan ''all'') example_table
       = (setitem_scalar example_table ''A'' (Num 1), [], None)
   \<and> set_treatment example_env (Column ''A'') (Plan ''none'') example_table
       = (setitem_scalar example_table ''A'' (Num 0), [], None)
   \<and> raised (TimeFixedGFormula_fit example_env (example_gformula (Column ''A'') None)
        (Plan ''all'') example_store) = None
   \<and> getitem (objs (heap (TimeFixedGFormula_fit example_env
        (example_gformula (Column ''A'') None) (Plan ''all'') example_store)) 1) ''A''
       = Inr [Num 1, Num 1]
   \<and> raised (TimeFixedGFormula_fit example_env (example_gformula (Column ''A'') None)
        (Plan ''none'') example_store) = None
   \<and> getitem (objs (heap (TimeFixedGFormula_fit example_env
        (example_gformula (Column ''A'') None) (Plan ''none'') example_store)) 1) ''A''
       = Inr [Num 0, Num 0]
   \<and> py_eval example_env ''g.L == 1'' example_table = Inr [False, True]
   \<and> length [False, True] = nrows example_table
   \<and> raised (TimeFixedGFormula_fit example_env (example_gformula (Column ''A'') None)
        (Plan ''g.L == 1'') example_store) = None
   \<and> predicted_df (self_after (TimeFixedGFormula_fit example_env
        (example_gformula (Column ''A'') None) (Plan ''g.L == 1'') example_store)) = Some 1
   \<and> getitem (objs (heap (TimeFixedGFormula_fit example_env
        (example_gformula (Column ''A'') None) (Plan ''g.L == 1'') example_store)) 1) ''A''
       = Inr [Num 0, Num 1]"
proof -
  let ?G = "example_gformula (Column ''A'') None"
  have ex: "exposure ?G = Column ''A''"
    and mf: "model_fit ?G"
    and om: "fitted_outcome_model ?G = Some example_model"
    and w: "weights ?G = None"
    and ne: "''A'' \<noteq> outcome ?G"
    by (simp_all add: example_gformula_def)
  have al: "gf ?G < fresh example_store"
    by (simp add: example_gformula_def example_store_def)
  have len: "\<forall>t. length (example_model t) = nrows t"
    by (simp add: example_model_def nrows_def)
  have tab: "objs example_store (gf ?G) = example_table"
    by (simp add: example_store_def example_gformula_def)
  have fr: "fresh example_store = 1"
    by (simp add: example_store_def)
  have n: "nrows example_table = 2"
    by (simp add: nrows_def example_table_def)
  have ev: "py_eval example_env ''g.L == 1'' example_table = Inr [False, True]"
    by (simp add: example_env_def example_table_def)
  have pi: "plan_indicator example_env ''g.L == 1'' example_table = Inr [Num 0, Num 1]"
    by (simp add: plan_indicator_def ev)
  note T = binary_plan_sets_exposure [OF ex, of example_env "''g.L == 1''" example_store example_model]
  have st1: "set_treatment example_env (Column ''A'') (Plan ''all'') example_table
       = (setitem_scalar example_table ''A'' (Num 1), [], None)"
    and st0: "set_treatment example_env (Column ''A'') (Plan ''none'') example_table
       = (setitem_scalar example_table ''A'' (Num 0), [], None)"
    using T by blast+
  have hyp: "model_fit ?G \<and> fitted_outcome_model ?G = Some example_model
          \<and> (\<forall>t. length (example_model t) = nrows t) \<and> gf ?G < fresh example_store
          \<and> (weights ?G = None
              \<or> (\<exists>wc wcol. weights ?G = Some wc \<and> getitem (objs example_store (gf ?G)) wc = Inr wcol
                    \<and> (\<forall>ws. all_numbers wcol = Some ws \<longrightarrow> sum_list ws \<noteq> 0)))"
    using mf om len al w by blast
  from T hyp have F:
    "raised (TimeFixedGFormula_fit example_env ?G (Plan ''all'') example_store) = None
     \<and> raised (TimeFixedGFormula_fit example_env ?G (Plan ''none'') example_store) = None
     \<and> (''A'' \<noteq> outcome ?G \<longrightarrow>
           getitem (objs (heap (TimeFixedGFormula_fit example_env ?G (Plan ''all'') example_store))
                      (fresh example_store)) ''A''
             = Inr (replicate (nrows (objs example_store (gf ?G))) (Num 1))
         \<and> getitem (objs (heap (TimeFixedGFormula_fit example_env ?G (Plan ''none'') example_store))
                      (fresh example_store)) ''A''
             = Inr (replicate (nrows (objs example_store (gf ?G))) (Num 0)))
     \<and> (\<forall>col. plan_indicator example_env ''g.L == 1'' (objs example_store (gf ?G)) = Inr col
                \<and> length col = nrows (objs example_store (gf ?G))
           \<longrightarrow> raised (TimeFixedGFormula_fit example_env ?G (Plan ''g.L == 1'') example_store) = None
               \<and> (''A'' \<noteq> outcome ?G \<longrightarrow>
                    getitem (objs (heap (TimeFixedGFormula_fit example_env ?G (Plan ''g.L == 1'')
                      example_store)) (fresh example_store)) ''A'' = Inr col))"
    by blast
  have a1: "raised (TimeFixedGFormula_fit example_env ?G (Plan ''all'') example_store) = None"
    and a0: "raised (TimeFixedGFormula_fit example_env ?G (Plan ''none'') example_store) = None"
    using F by blast+
  have c1: "getitem (objs (heap (TimeFixedGFormula_fit example_env ?G (Plan ''all'') example_store)) 1) ''A''
       = Inr [Num 1, Num 1]"
    using F ne by (simp add: tab fr n numeral_2_eq_2)
  have c0: "getitem (objs (heap (TimeFixedGFormula_fit example_env ?G (Plan ''none'') example_store)) 1) ''A''
       = Inr [Num 0, Num 0]"
    using F ne by (simp add: tab fr n numeral_2_eq_2)
  have cu: "raised (TimeFixedGFormula_fit example_env ?G (Plan ''g.L == 1'') example_store) = None
     \<and> getitem (objs (heap (TimeFixedGFormula_fit example_env ?G (Plan ''g.L == 1'') example_store)) 1) ''A''
       = Inr [Num 0, Num 1]"
    using F ne pi by (simp add: tab fr n)
  have pd: "predicted_df (self_after (TimeFixedGFormula_fit example_env ?G (Plan ''g.L == 1'')
       example_store)) = Some 1"
    using T cu ne by (auto simp: example_defs Let_def)
  show ?thesis
    using ex mf om al w ne st1 st0 a1 a0 c1 c0 ev n cu pd by simp
qed

theorem marginal_outcome_is_mean_witness:
  "raised (TimeFixedGFormula_fit example_env (example_gformula (Column ''A'') None)
        (Plan ''all'') example_store) = None
   \<and> gf (example_gformula (Column ''A'') None) < fresh example_store
   \<and> marginal_outcome (self_after (TimeFixedGFormula_fit example_env
        (example_gformula (Column ''A'') None) (Plan ''all'') example_store))
       = Some (Num (arithmetic_mean [1 / 2, 1 / 2]))
   \<and> raised (TimeFixedGFormula_fit example_env (example_gformula (Column ''A'') (Some ''w''))
        (Plan ''g.L == 1'') example_store) = None
   \<and> marginal_outcome (self_after (TimeFixedGFormula_fit example_env
        (example_gformula (Column ''A'') (Some ''w'')) (Plan ''g.L == 1'') example_store))
       = Some (Num (weighted_average [1 / 4, 1 / 2] [1, 3]))"
proof -
  have ok1: "raised (TimeFixedGFormula_fit example_env (example_gformula (Column ''A'') None)
        (Plan ''all'') example_store) = None"
    by (simp add: example_defs Let_def)
  have ok2: "raised (TimeFixedGFormula_fit example_env (example_gformula (Column ''A'') (Some ''w''))
        (Plan ''g.L == 1'') example_store) = None"
    by (simp add: example_defs Let_def)
  have al: "gf (example_gformula (Column ''A'') w) < fresh example_store" for w
    by (simp add: example_gformula_def example_store_def)
  have p1: "example_model (setitem_scalar (fst (set_treatment example_env (Column ''A'') (Plan ''all'')
        example_table)) ''Y'' NaN) = [1 / 2, 1 / 2]"
    by (simp add: example_defs)
  have p2: "example_model (setitem_scalar (fst (set_treatment example_env (Column ''A'')
        (Plan ''g.L == 1'') example_table)) ''Y'' NaN) = [1 / 4, 1 / 2]"
    by (simp add: example_defs)
  have w: "getitem example_table ''w'' = Inr [Num 1, Num 3]"
    by (simp add: getitem_def example_table_def)
  have t: "objs example_store 0 = example_table"
    by (simp add: example_store_def)
  have c1: "marginal_outcome (self_after (TimeFixedGFormula_fit example_env
        (example_gformula (Column ''A'') None) (Plan ''all'') example_store))
       = Some (Num (arithmetic_mean [1 / 2, 1 / 2]))"
    using marginal_outcome_is_mean [OF ok1 al] p1
    by (auto simp: example_gformula_def t)
  have c2: "marginal_outcome (self_after (TimeFixedGFormula_fit example_env
        (example_gformula (Column ''A'') (Some ''w'')) (Plan ''g.L == 1'') example_store))
       = Some (Num (weighted_average [1 / 4, 1 / 2] [1, 3]))"
    using marginal_outcome_is_mean [OF ok2 al] p2 w
    by (auto simp: example_gformula_def t)
  show ?thesis
    using ok1 ok2 al c1 c2 by blast
qed

theorem fit_before_model_specification_witness:
  "\<not> model_fit ((example_gformula (Column ''A'') None)\<lparr>model_fit := False, fitted_outcome_model := None\<rparr>)
   \<and> raised (TimeFixedGFormula_fit example_env
        ((example_gformula (Column ''A'') None)\<lparr>model_fit := False, fitted_outcome_model := None\<rparr>)
        (Plan ''all'') example_store) = Some (ValueError msg_no_model)
   \<and> snm_model (example_snm None) = None
   \<and> GEstimationSNM_fit example_env (example_snm None) ''closed'' None 0
       = (example_snm None, Some (TypeError msg_none_plus_str))
   \<and> snm_treatment_model (structural_nested_model (example_snm None) ''A'') = None
   \<and> snm_model (structural_nested_model (example_snm None) ''A'') = Some ''A''
   \<and> \<not> isl (dmatrix example_env (''A'' @ '' - 1'') example_frame)
   \<and> \<not> isl (drop_column example_frame ''A'')
   \<and> snd (GEstimationSNM_fit example_env (structural_nested_model (example_snm None) ''A'')
            ''closed'' None 0) = Some (TypeError msg_str_plus_none)
   \<and> psi (fst (GEstimationSNM_fit example_env (structural_nested_model (example_snm None) ''A'')
            ''closed'' None 0)) = None"
proof -
  let ?g = "(example_gformula (Column ''A'') None)\<lparr>model_fit := False, fitted_outcome_model := None\<rparr>"
  let ?s = "structural_nested_model (example_snm None) ''A''"
  have cols: "columns example_frame = [''index'', ''A'', ''Y'', ''L'', ''w'']"
    by (simp add: example_frame_def reset_index_def dropna_def example_table_def Let_def)
  have h1: "\<not> model_fit ?g" by simp
  have h2: "snm_model (example_snm None) = None" by (simp add: example_snm_def)
  have h3: "snm_treatment_model ?s = None" "snm_model ?s = Some ''A''"
    "snm_df ?s = example_frame" "snm_treatment ?s = ''A''" "snm_outcome ?s = ''Y''"
    by (simp_all add: example_snm_def structural_nested_model_def)
  have h4: "dmatrix example_env (''A'' @ '' - 1'') example_frame
      = Inr \<lparr>columns = [''A''],
              rows = map (\<lambda>(i, r). (i, (\<lambda>c. 0)(''A'' := r ''A''))) (rows example_frame)\<rparr>"
    by (simp add: example_env_def)
  have h5: "drop_column example_frame ''A''
      = Inr \<lparr>columns = filter (\<lambda>x. x \<noteq> ''A'') (columns example_frame), rows = rows example_frame\<rparr>"
    by (simp add: drop_column_def cols)
  have h6: "dmatrix example_env (''A'' @ '' - 1'')
      (rename_column \<lparr>columns = filter (\<lambda>x. x \<noteq> ''A'') (columns example_frame), rows = rows example_frame\<rparr> ''Y'' ''A'')
      = Inr \<lparr>columns = [''A''],
              rows = map (\<lambda>(i, r). (i, (\<lambda>c. 0)(''A'' := r ''A'')))
                (rows (rename_column \<lparr>columns = filter (\<lambda>x. x \<noteq> ''A'') (columns example_frame), rows = rows example_frame\<rparr> ''Y'' ''A''))\<rparr>"
    by (simp add: example_env_def)
  note T1 = fit_before_model_specification [of ?g example_env "Plan ''all''" example_store
      "example_snm None" None 0]
  note T2 = fit_before_model_specification [of ?g example_env "Plan ''all''" example_store ?s None 0
      "''A''"]
  have c1: "raised (TimeFixedGFormula_fit example_env ?g (Plan ''all'') example_store)
      = Some (ValueError msg_no_model)"
    using T1 h1 by blast
  have c2: "GEstimationSNM_fit example_env (example_snm None) ''closed'' None 0
       = (example_snm None, Some (TypeError msg_none_plus_str))"
    using T1 h2 by blast
  have c3: "snd (GEstimationSNM_fit example_env ?s ''closed'' None 0) = Some (TypeError msg_str_plus_none)"
    using T2 h3 h4 h5 h6 by simp
  have c4: "psi (fst (GEstimationSNM_fit example_env ?s ''closed'' None 0)) = None"
    using T2 h3(1) by (simp add: structural_nested_model_def example_snm_def)
  show ?thesis
    using h1 h2 h3(1,2) c1 c2 c3 c4 h4 h5 by simp
qed

theorem binary_exposure_required_witness:
  "reset_index (dropna (objs example_store 0)) = Inr example_frame
   \<and> getitem example_frame ''A'' = Inr [1, 0]
   \<and> fst (GEstimationSNM_init 0 ''A'' ''Y'' None example_store) = Inr (example_snm None)
   \<and> getitem example_frame ''w'' = Inr [1, 3]
   \<and> fst (GEstimationSNM_init 0 ''w'' ''Y'' None example_store) = Inl (ValueError msg_binary_only)"
proof -
  have h1: "reset_index (dropna (objs example_store 0)) = Inr example_frame"
    by (simp add: example_store_def example_frame_eq)
  have h2: "getitem example_frame ''A'' = Inr [1, 0]"
    by (simp add: getitem_def example_frame_def reset_index_def dropna_def example_table_def
        Let_def complete_row_def cell_value_def)
  have h3: "getitem example_frame ''w'' = Inr [1, 3]"
    by (simp add: getitem_def example_frame_def reset_index_def dropna_def example_table_def
        Let_def complete_row_def cell_value_def)
  show ?thesis
    using binary_exposure_required [OF h1 h2, of "''Y''" None]
      binary_exposure_required [OF h1 h3, of "''Y''" None] h1 h2 h3
    by (simp add: example_snm_def)
qed

theorem caller_table_never_modified_witness:
  "0 < fresh example_store
   \<and> fst (TimeFixedGFormula_init 0 (Column ''A'') ''Y'' ''binary'' None example_store)
       = Inr ((example_gformula (Column ''A'') None)
               \<lparr>gf := 1, model_fit := False, fitted_outcome_model := None\<rparr>)
   \<and> objs (snd (run_gformula example_env
              [Call_outcome_model ''A + L'' False, Call_fit (Plan ''all'')]
              ((example_gformula (Column ''A'') None)
                 \<lparr>gf := 1, model_fit := False, fitted_outcome_model := None\<rparr>)
              (snd (TimeFixedGFormula_init 0 (Column ''A'') ''Y'' ''binary'' None example_store)))) 0
       = objs example_store 0
   \<and> objs (snd (snd (GEstimationSNM_init 0 ''A'' ''Y'' None example_store))) 0 = objs example_store 0"
proof -
  have h1: "0 < fresh example_store" by (simp add: example_store_def)
  have h2: "fst (TimeFixedGFormula_init 0 (Column ''A'') ''Y'' ''binary'' None example_store)
       = Inr ((example_gformula (Column ''A'') None)
               \<lparr>gf := 1, model_fit := False, fitted_outcome_model := None\<rparr>)"
    by (simp add: TimeFixedGFormula_init_def example_gformula_def example_store_def
        df_copy_def df_new_def)
  show ?thesis
    using caller_table_never_modified [OF h1, of "Column ''A''" "''Y''" "''binary''" None example_env
        "[Call_outcome_model ''A + L'' False, Call_fit (Plan ''all'')]" "''A''" "''Y''" None] h1 h2
    by simp
qed

end
